theory Spec2Isabelle
  imports Main "HOL-Library.Word" "HOL-Library.Sublist"
begin

section \<open>JavaScript strings\<close>

text \<open>
  A JavaScript string is a sequence of UTF-16 code units: \<open>.length\<close> counts code units and a
  regular expression without the \<open>u\<close> flag matches code unit by code unit. A source literal is
  written \<open>js ''...''\<close> for its ASCII part and as explicit code units elsewhere (an emoji is a
  surrogate pair).
\<close>

type_synonym jschar = "16 word"
type_synonym jsstring = "jschar list"

definition js :: "string \<Rightarrow> jsstring" where
  "js s = map of_char s"

text \<open>
  The code units that \<open>String.prototype.trim\<close> strips and that \<open>\s\<close> matches: ECMAScript's
  WhiteSpace and LineTerminator productions.
\<close>

definition isWhiteSpace :: "jschar \<Rightarrow> bool" where
  "isWhiteSpace c \<longleftrightarrow>
     c = 0x09 \<or> c = 0x0A \<or> c = 0x0B \<or> c = 0x0C \<or> c = 0x0D \<or> c = 0x20 \<or> c = 0xA0 \<or>
     c = 0x1680 \<or> (0x2000 \<le> c \<and> c \<le> 0x200A) \<or> c = 0x2028 \<or> c = 0x2029 \<or>
     c = 0x202F \<or> c = 0x205F \<or> c = 0x3000 \<or> c = 0xFEFF"

definition trim :: "jsstring \<Rightarrow> jsstring" where
  "trim s = rev (dropWhile isWhiteSpace (rev (dropWhile isWhiteSpace s)))"

text \<open>\<open>name.split(' ')[0]\<close>: the text before the first space (all of it when there is none).\<close>

definition first_split :: "jsstring \<Rightarrow> jsstring" where
  "first_split s = takeWhile (\<lambda>c. c \<noteq> 0x20) s"

text \<open>\<open>message.substring(0, 50)\<close>.\<close>

definition substring_0_50 :: "jsstring \<Rightarrow> jsstring" where
  "substring_0_50 s = take 50 s"

text \<open>
  An environment variable is absent (\<open>undefined\<close>) or a string. \<open>truthy\<close> is JavaScript's
  conversion to a boolean, \<open>js_or\<close> is \<open>a || b\<close>, and \<open>interpolate\<close> is \<open>${v}\<close> in a template
  literal.
\<close>

definition truthy :: "jsstring option \<Rightarrow> bool" where
  "truthy v = (case v of None \<Rightarrow> False | Some s \<Rightarrow> s \<noteq> [])"

definition js_or :: "jsstring option \<Rightarrow> jsstring option \<Rightarrow> jsstring option" where
  "js_or a b = (if truthy a then a else b)"

definition interpolate :: "jsstring option \<Rightarrow> jsstring" where
  "interpolate v = (case v of None \<Rightarrow> js ''undefined'' | Some s \<Rightarrow> s)"

section \<open>The regular expression of \<open>isValidEmail\<close>\<close>

text \<open>
  \<open>/^[^\s@]+@[^\s@]+\.[^\s@]+$/\<close> is a sequence of atoms, each taken once or one-or-more
  times, anchored at both ends. \<open>regex_test\<close> is \<open>RegExp.prototype.test\<close> for such an anchored
  sequence: it tries every way of splitting the input, as the backtracking matcher does.
\<close>

datatype class_item = WhiteSpaceClass | CharItem jschar

datatype atom = Literal jschar | NegatedClass "class_item list"

datatype quantified = Once atom | OneOrMore atom

fun class_item_matches :: "class_item \<Rightarrow> jschar \<Rightarrow> bool" where
  "class_item_matches WhiteSpaceClass c = isWhiteSpace c"
| "class_item_matches (CharItem x) c = (c = x)"

fun atom_matches :: "atom \<Rightarrow> jschar \<Rightarrow> bool" where
  "atom_matches (Literal x) c = (c = x)"
| "atom_matches (NegatedClass items) c = (\<not> list_ex (\<lambda>i. class_item_matches i c) items)"

fun regex_test :: "quantified list \<Rightarrow> jsstring \<Rightarrow> bool" where
  "regex_test [] s = (s = [])"
| "regex_test (Once a # r) [] = False"
| "regex_test (Once a # r) (c # s) = (atom_matches a c \<and> regex_test r s)"
| "regex_test (OneOrMore a # r) [] = False"
| "regex_test (OneOrMore a # r) (c # s) =
     (atom_matches a c \<and> (regex_test (OneOrMore a # r) s \<or> regex_test r s))"

definition emailRegex :: "quantified list" where
  "emailRegex =
     [OneOrMore (NegatedClass [WhiteSpaceClass, CharItem 0x40]), Once (Literal 0x40),
      OneOrMore (NegatedClass [WhiteSpaceClass, CharItem 0x40]), Once (Literal 0x2E),
      OneOrMore (NegatedClass [WhiteSpaceClass, CharItem 0x40])]"

definition isValidEmail :: "jsstring \<Rightarrow> bool" where
  "isValidEmail email = regex_test emailRegex email"

text \<open>
  The pattern in the specification's words: a local part, \<open>@\<close>, a domain part, \<open>.\<close> and a
  final part, each part a non-empty run of code units that are neither white space nor \<open>@\<close>.
\<close>

definition emailPart :: "jsstring \<Rightarrow> bool" where
  "emailPart p \<longleftrightarrow> p \<noteq> [] \<and> (\<forall>c \<in> set p. \<not> isWhiteSpace c \<and> c \<noteq> 0x40)"

definition emailPattern :: "jsstring \<Rightarrow> bool" where
  "emailPattern s \<longleftrightarrow>
     (\<exists>l d t. s = l @ [0x40] @ d @ [0x2E] @ t \<and> emailPart l \<and> emailPart d \<and> emailPart t)"

section \<open>Validation\<close>

record submission =
  name :: jsstring
  email :: jsstring
  subject :: jsstring
  message :: jsstring

text \<open>
  The validation block is the same text in the Express route and in the serverless function:
  an \<open>errors\<close> array and four \<open>if\<close> statements that push onto it. For a string, \<open>!name\<close> holds
  exactly for the empty string.
\<close>

definition name_error :: jsstring where
  "name_error = js ''Name is required (min 2 characters)''"

definition email_error :: jsstring where
  "email_error = js ''Valid email address is required''"

definition subject_error :: jsstring where
  "subject_error = js ''Subject is required (min 3 characters)''"

definition message_error :: jsstring where
  "message_error = js ''Message is required (min 20 characters)''"

definition validate :: "submission \<Rightarrow> jsstring list" where
  "validate d =
     (let errors = [];
          errors = (if name d = [] \<or> length (trim (name d)) < 2
                    then errors @ [name_error] else errors);
          errors = (if email d = [] \<or> \<not> isValidEmail (email d)
                    then errors @ [email_error] else errors);
          errors = (if subject d = [] \<or> length (trim (subject d)) < 3
                    then errors @ [subject_error] else errors);
          errors = (if message d = [] \<or> length (trim (message d)) < 20
                    then errors @ [message_error] else errors)
      in errors)"

section \<open>The world outside the handlers\<close>

text \<open>
  An error is represented by its message. A transport is the configuration object given to
  \<open>nodemailer.createTransport\<close>.
\<close>

type_synonym jserror = jsstring

record transport_config =
  host :: jsstring
  port :: int
  secure :: bool
  auth_user :: jsstring
  auth_pass :: jsstring

record mailOptions =
  mo_from :: jsstring
  mo_to :: "jsstring option"
  mo_replyTo :: jsstring
  mo_subject :: jsstring
  mo_html :: jsstring
  mo_text :: jsstring

text \<open>
  What a handler reads from outside: the environment variables, the clock as formatted at
  each place that calls \<open>new Date()\<close>, and the outcome of each call that can fail
  (\<open>Inl\<close> is the error thrown). \<open>EMAIL_PORT_parsed\<close> is \<open>parseInt(process.env.EMAIL_PORT)\<close>,
  \<open>None\<close> for \<open>NaN\<close>. A successful \<open>sendMail\<close> yields what \<open>getTestMessageUrl\<close> makes of its
  result: a preview address or \<open>false\<close> (\<open>None\<close>).
\<close>

record runtime =
  EMAIL_HOST :: "jsstring option"
  EMAIL_PORT_parsed :: "int option"
  EMAIL_USER :: "jsstring option"
  EMAIL_PASS :: "jsstring option"
  EMAIL_TO :: "jsstring option"
  SUBMISSIONS_FILE :: jsstring
  date_template :: jsstring
  date_plaintext :: jsstring
  date_logfile :: jsstring
  date_console :: jsstring
  date_iso :: jsstring
  appendFileSync_error :: "jserror option"
  createTestAccount :: "jserror + jsstring \<times> jsstring"
  verify :: "transport_config \<Rightarrow> jserror option"
  sendMail :: "transport_config \<Rightarrow> mailOptions \<Rightarrow> jserror + jsstring option"

text \<open>Every call with an effect is recorded, in order, in the trace.\<close>

datatype event =
    ConsoleLog "jsstring list"
  | ConsoleError "jsstring list"
  | AppendFileSync jsstring jsstring
  | CreateTestAccount
  | CreateTransport transport_config
  | Verify transport_config
  | SendMail transport_config mailOptions

record world =
  transporter :: "transport_config option"
  submissions :: jsstring
  trace :: "event list"

definition emit :: "event list \<Rightarrow> world \<Rightarrow> world" where
  "emit es w = w\<lparr>trace := trace w @ es\<rparr>"

text \<open>\<open>a\<close> is recorded before the first \<open>b\<close>.\<close>

definition precedes :: "'a \<Rightarrow> 'a \<Rightarrow> 'a list \<Rightarrow> bool" where
  "precedes a b xs \<longleftrightarrow> a \<in> set (takeWhile (\<lambda>x. x \<noteq> b) xs) \<and> b \<in> set xs"

datatype json =
    JString jsstring
  | JBool bool
  | JArray "json list"
  | JObject "(jsstring \<times> json) list"

fun json_field :: "jsstring \<Rightarrow> json \<Rightarrow> json option" where
  "json_field k (JObject kvs) = map_of kvs k"
| "json_field k _ = None"

text \<open>
  \<open>headers\<close> are the ones the handler sets itself; \<open>body = None\<close> is a response ended
  without a body.
\<close>

record response =
  status :: nat
  headers :: "(jsstring \<times> jsstring) list"
  body :: "json option"

section \<open>The Express server\<close>

subsection \<open>Transport set-up at start\<close>

definition ethereal_transport :: "jsstring \<Rightarrow> jsstring \<Rightarrow> transport_config" where
  "ethereal_transport user pass =
     \<lparr>host = js ''smtp.ethereal.email'', port = 587, secure = False,
      auth_user = user, auth_pass = pass\<rparr>"

definition smtp_transport :: "runtime \<Rightarrow> jsstring \<Rightarrow> jsstring \<Rightarrow> transport_config" where
  "smtp_transport rt user pass =
     \<lparr>host = (if truthy (EMAIL_HOST rt) then interpolate (EMAIL_HOST rt) else js ''smtp.gmail.com''),
      port = (case EMAIL_PORT_parsed rt of None \<Rightarrow> 587 | Some p \<Rightarrow> if p = 0 then 587 else p),
      secure = False, auth_user = user, auth_pass = pass\<rparr>"




definition initial_world :: world where
  "initial_world = \<lparr>transporter = None, submissions = [], trace = []\<rparr>"

subsection \<open>The submission log\<close>

definition log_entry :: "runtime \<Rightarrow> submission \<Rightarrow> jsstring" where
  \<open>log_entry rt d =
     (let timestamp = date_logfile rt in
     js ''\<newline>'' @
     replicate 60 0x2550 @ js ''\<newline>'' @
     js ''                    NEW CONTACT SUBMISSION\<newline>'' @
     replicate 60 0x2550 @ js ''\<newline>'' @
     [0xD83D, 0xDCC5] @ js '' Date/Time: '' @ timestamp @ js ''\<newline>'' @
     replicate 60 0x2500 @ js ''\<newline>'' @
     [0xD83D, 0xDC64] @ js '' Name:      '' @ name d @ js ''\<newline>'' @
     [0xD83D, 0xDCE7] @ js '' Email:     '' @ email d @ js ''\<newline>'' @
     [0xD83D, 0xDCDD] @ js '' Subject:   '' @ subject d @ js ''\<newline>'' @
     replicate 60 0x2500 @ js ''\<newline>'' @
     [0xD83D, 0xDCAC] @ js '' Message:\<newline>'' @
     message d @ js ''\<newline>'' @
     replicate 60 0x2550 @ js ''\<newline>'' @
     js ''\<newline>'')\<close>

definition saveSubmissionToFile :: "runtime \<Rightarrow> submission \<Rightarrow> world \<Rightarrow> world" where
  \<open>saveSubmissionToFile rt d w =
     (let entry = log_entry rt d in
      case appendFileSync_error rt of
        None \<Rightarrow>
          emit [AppendFileSync (SUBMISSIONS_FILE rt) entry,
                ConsoleLog [([0xD83D, 0xDCBE] @ js '' Submission saved to:''), SUBMISSIONS_FILE rt]]
            (w\<lparr>submissions := submissions w @ entry\<rparr>)
      | Some error \<Rightarrow>
          emit [AppendFileSync (SUBMISSIONS_FILE rt) entry,
                ConsoleError [([0x274C] @ js '' Error saving to file:''), error]] w)\<close>

subsection \<open>Rendering\<close>

definition escapeChar :: "jschar \<Rightarrow> jsstring" where
  "escapeChar c =
     (if c = 0x26 then js ''&amp;''
      else if c = 0x3C then js ''&lt;''
      else if c = 0x3E then js ''&gt;''
      else if c = 0x22 then js ''&quot;''
      else if c = 0x27 then js ''&#039;''
      else [c])"

definition escapeHtml :: "jsstring \<Rightarrow> jsstring" where
  "escapeHtml t = concat (map escapeChar t)"

definition generateEmailTemplate :: "runtime \<Rightarrow> submission \<Rightarrow> jsstring" where
  \<open>generateEmailTemplate rt d =
     (let currentDate = date_template rt in
     js ''\<newline>'' @
     js ''<!DOCTYPE html>\<newline>'' @
     js ''<html lang="en">\<newline>'' @
     js ''<head>\<newline>'' @
     js ''    <meta charset="UTF-8">\<newline>'' @
     js ''    <meta name="viewport" content="width=device-width, initial-scale=1.0">\<newline>'' @
     js ''    <title>New Contact Form Submission</title>\<newline>'' @
     js ''</head>\<newline>'' @
     js ''<body style="margin: 0; padding: 0; font-family: 'Segoe UI', Tahoma, Geneva, Verdana, sans-serif; background-color: #0a0a0f;">\<newline>'' @
     js ''    <table role="presentation" width="100%" cellspacing="0" cellpadding="0" style="background-color: #0a0a0f; padding: 40px 20px;">\<newline>'' @
     js ''        <tr>\<newline>'' @
     js ''            <td align="center">\<newline>'' @
     js ''                <table role="presentation" width="600" cellspacing="0" cellpadding="0" style="background: linear-gradient(145deg, #0d1b2a, #1a1a2e); border-radius: 16px; overflow: hidden; box-shadow: 0 20px 60px rgba(0, 212, 255, 0.15);">\<newline>'' @
     js ''\<newline>'' @
     js ''                    <!-- Header -->\<newline>'' @
     js ''                    <tr>\<newline>'' @
     js ''                        <td style="background: linear-gradient(135deg, #00d4ff, #00ffcc); padding: 30px 40px; text-align: center;">\<newline>'' @
     js ''                            <h1 style="margin: 0; color: #0a0a0f; font-size: 28px; font-weight: 700; letter-spacing: 1px;">\<newline>'' @
     js ''                                '' @ [0x2709, 0xFE0F] @ js '' New Message Received\<newline>'' @
     js ''                            </h1>\<newline>'' @
     js ''                            <p style="margin: 10px 0 0; color: #0d1b2a; font-size: 14px; opacity: 0.8;">\<newline>'' @
     js ''                                Someone contacted you through your portfolio\<newline>'' @
     js ''                            </p>\<newline>'' @
     js ''                        </td>\<newline>'' @
     js ''                    </tr>\<newline>'' @
     js ''\<newline>'' @
     js ''                    <!-- Timestamp -->\<newline>'' @
     js ''                    <tr>\<newline>'' @
     js ''                        <td style="padding: 20px 40px 0; text-align: center;">\<newline>'' @
     js ''                            <p style="margin: 0; color: #a0a0a0; font-size: 12px;">\<newline>'' @
     js ''                                '' @ [0xD83D, 0xDCC5] @ js '' '' @ currentDate @ js ''\<newline>'' @
     js ''                            </p>\<newline>'' @
     js ''                        </td>\<newline>'' @
     js ''                    </tr>\<newline>'' @
     js ''\<newline>'' @
     js ''                    <!-- Contact Details -->\<newline>'' @
     js ''                    <tr>\<newline>'' @
     js ''                        <td style="padding: 30px 40px;">\<newline>'' @
     js ''                            <table role="presentation" width="100%" cellspacing="0" cellpadding="0">\<newline>'' @
     js ''\<newline>'' @
     js ''                                <!-- Name -->\<newline>'' @
     js ''                                <tr>\<newline>'' @
     js ''                                    <td style="padding: 15px 20px; background: rgba(255,255,255,0.03); border-radius: 12px; margin-bottom: 10px;">\<newline>'' @
     js ''                                        <table role="presentation" width="100%" cellspacing="0" cellpadding="0">\<newline>'' @
     js ''                                            <tr>\<newline>'' @
     js ''                                                <td width="40" style="vertical-align: top;">\<newline>'' @
     js ''                                                    <div style="width: 36px; height: 36px; background: linear-gradient(135deg, #00d4ff, #00ffcc); border-radius: 8px; text-align: center; line-height: 36px; font-size: 16px;">\<newline>'' @
     js ''                                                        '' @ [0xD83D, 0xDC64] @ js ''\<newline>'' @
     js ''                                                    </div>\<newline>'' @
     js ''                                                </td>\<newline>'' @
     js ''                                                <td style="padding-left: 15px; vertical-align: top;">\<newline>'' @
     js ''                                                    <p style="margin: 0 0 4px; color: #a0a0a0; font-size: 11px; text-transform: uppercase; letter-spacing: 1px;">Name</p>\<newline>'' @
     js ''                                                    <p style="margin: 0; color: #ffffff; font-size: 16px; font-weight: 600;">'' @ escapeHtml (name d) @ js ''</p>\<newline>'' @
     js ''                                                </td>\<newline>'' @
     js ''                                            </tr>\<newline>'' @
     js ''                                        </table>\<newline>'' @
     js ''                                    </td>\<newline>'' @
     js ''                                </tr>\<newline>'' @
     js ''\<newline>'' @
     js ''                                <tr><td style="height: 12px;"></td></tr>\<newline>'' @
     js ''\<newline>'' @
     js ''                                <!-- Email -->\<newline>'' @
     js ''                                <tr>\<newline>'' @
     js ''                                    <td style="padding: 15px 20px; background: rgba(255,255,255,0.03); border-radius: 12px;">\<newline>'' @
     js ''                                        <table role="presentation" width="100%" cellspacing="0" cellpadding="0">\<newline>'' @
     js ''                                            <tr>\<newline>'' @
     js ''                                                <td width="40" style="vertical-align: top;">\<newline>'' @
     js ''                                                    <div style="width: 36px; height: 36px; background: linear-gradient(135deg, #00d4ff, #00ffcc); border-radius: 8px; text-align: center; line-height: 36px; font-size: 16px;">\<newline>'' @
     js ''                                                        '' @ [0xD83D, 0xDCE7] @ js ''\<newline>'' @
     js ''                                                    </div>\<newline>'' @
     js ''                                                </td>\<newline>'' @
     js ''                                                <td style="padding-left: 15px; vertical-align: top;">\<newline>'' @
     js ''                                                    <p style="margin: 0 0 4px; color: #a0a0a0; font-size: 11px; text-transform: uppercase; letter-spacing: 1px;">Email</p>\<newline>'' @
     js ''                                                    <a href="mailto:'' @ escapeHtml (email d) @ js ''" style="color: #00d4ff; font-size: 16px; font-weight: 600; text-decoration: none;">'' @ escapeHtml (email d) @ js ''</a>\<newline>'' @
     js ''                                                </td>\<newline>'' @
     js ''                                            </tr>\<newline>'' @
     js ''                                        </table>\<newline>'' @
     js ''                                    </td>\<newline>'' @
     js ''                                </tr>\<newline>'' @
     js ''\<newline>'' @
     js ''                                <tr><td style="height: 12px;"></td></tr>\<newline>'' @
     js ''\<newline>'' @
     js ''                                <!-- Subject -->\<newline>'' @
     js ''                                <tr>\<newline>'' @
     js ''                                    <td style="padding: 15px 20px; background: rgba(255,255,255,0.03); border-radius: 12px;">\<newline>'' @
     js ''                                        <table role="presentation" width="100%" cellspacing="0" cellpadding="0">\<newline>'' @
     js ''                                            <tr>\<newline>'' @
     js ''                                                <td width="40" style="vertical-align: top;">\<newline>'' @
     js ''                                                    <div style="width: 36px; height: 36px; background: linear-gradient(135deg, #00d4ff, #00ffcc); border-radius: 8px; text-align: center; line-height: 36px; font-size: 16px;">\<newline>'' @
     js ''                                                        '' @ [0xD83D, 0xDCDD] @ js ''\<newline>'' @
     js ''                                                    </div>\<newline>'' @
     js ''                                                </td>\<newline>'' @
     js ''                                                <td style="padding-left: 15px; vertical-align: top;">\<newline>'' @
     js ''                                                    <p style="margin: 0 0 4px; color: #a0a0a0; font-size: 11px; text-transform: uppercase; letter-spacing: 1px;">Subject</p>\<newline>'' @
     js ''                                                    <p style="margin: 0; color: #ffffff; font-size: 16px; font-weight: 600;">'' @ escapeHtml (subject d) @ js ''</p>\<newline>'' @
     js ''                                                </td>\<newline>'' @
     js ''                                            </tr>\<newline>'' @
     js ''                                        </table>\<newline>'' @
     js ''                                    </td>\<newline>'' @
     js ''                                </tr>\<newline>'' @
     js ''\<newline>'' @
     js ''                            </table>\<newline>'' @
     js ''                        </td>\<newline>'' @
     js ''                    </tr>\<newline>'' @
     js ''\<newline>'' @
     js ''                    <!-- Message -->\<newline>'' @
     js ''                    <tr>\<newline>'' @
     js ''                        <td style="padding: 0 40px 30px;">\<newline>'' @
     js ''                            <div style="background: rgba(0, 212, 255, 0.05); border: 1px solid rgba(0, 212, 255, 0.2); border-radius: 12px; padding: 25px;">\<newline>'' @
     js ''                                <p style="margin: 0 0 12px; color: #00d4ff; font-size: 13px; text-transform: uppercase; letter-spacing: 1px; font-weight: 600;">\<newline>'' @
     js ''                                    '' @ [0xD83D, 0xDCAC] @ js '' Message\<newline>'' @
     js ''                                </p>\<newline>'' @
     js ''                                <p style="margin: 0; color: #e0e0e0; font-size: 15px; line-height: 1.7; white-space: pre-wrap;">'' @ escapeHtml (message d) @ js ''</p>\<newline>'' @
     js ''                            </div>\<newline>'' @
     js ''                        </td>\<newline>'' @
     js ''                    </tr>\<newline>'' @
     js ''\<newline>'' @
     js ''                    <!-- Reply Button -->\<newline>'' @
     js ''                    <tr>\<newline>'' @
     js ''                        <td style="padding: 0 40px 30px; text-align: center;">\<newline>'' @
     js ''                            <a href="mailto:'' @ escapeHtml (email d) @ js ''?subject=Re: '' @ escapeHtml (subject d) @ js ''"\<newline>'' @
     js ''                               style="display: inline-block; background: linear-gradient(135deg, #00d4ff, #00ffcc); color: #0a0a0f; text-decoration: none; padding: 14px 40px; border-radius: 8px; font-weight: 600; font-size: 14px; letter-spacing: 0.5px;">\<newline>'' @
     js ''                                Reply to '' @ escapeHtml (first_split (name d)) @ js '' '' @ [0x2192] @ js ''\<newline>'' @
     js ''                            </a>\<newline>'' @
     js ''                        </td>\<newline>'' @
     js ''                    </tr>\<newline>'' @
     js ''\<newline>'' @
     js ''                    <!-- Footer -->\<newline>'' @
     js ''                    <tr>\<newline>'' @
     js ''                        <td style="background: rgba(0,0,0,0.3); padding: 25px 40px; text-align: center; border-top: 1px solid rgba(255,255,255,0.05);">\<newline>'' @
     js ''                            <p style="margin: 0 0 8px; color: #ffffff; font-size: 16px; font-weight: 700;">\<newline>'' @
     js ''                                Ajay Jaiswar\<newline>'' @
     js ''                            </p>\<newline>'' @
     js ''                            <p style="margin: 0; color: #a0a0a0; font-size: 12px;">\<newline>'' @
     js ''                                QA Analyst & Frontend Developer\<newline>'' @
     js ''                            </p>\<newline>'' @
     js ''                            <p style="margin: 15px 0 0; color: #6b6b6b; font-size: 11px;">\<newline>'' @
     js ''                                This email was sent from your portfolio contact form\<newline>'' @
     js ''                            </p>\<newline>'' @
     js ''                        </td>\<newline>'' @
     js ''                    </tr>\<newline>'' @
     js ''\<newline>'' @
     js ''                </table>\<newline>'' @
     js ''            </td>\<newline>'' @
     js ''        </tr>\<newline>'' @
     js ''    </table>\<newline>'' @
     js ''</body>\<newline>'' @
     js ''</html>\<newline>'' @
     js ''    '')\<close>

definition generatePlainTextEmail :: "runtime \<Rightarrow> submission \<Rightarrow> jsstring" where
  \<open>generatePlainTextEmail rt d =
     js ''\<newline>'' @
     replicate 43 0x2550 @ js ''\<newline>'' @
     js ''       NEW CONTACT FORM SUBMISSION\<newline>'' @
     replicate 43 0x2550 @ js ''\<newline>'' @
     js ''\<newline>'' @
     [0xD83D, 0xDCC5] @ js '' Date: '' @ date_plaintext rt @ js ''\<newline>'' @
     js ''\<newline>'' @
     replicate 43 0x2500 @ js ''\<newline>'' @
     js ''CONTACT DETAILS\<newline>'' @
     replicate 43 0x2500 @ js ''\<newline>'' @
     js ''\<newline>'' @
     [0xD83D, 0xDC64] @ js '' Name:    '' @ name d @ js ''\<newline>'' @
     [0xD83D, 0xDCE7] @ js '' Email:   '' @ email d @ js ''\<newline>'' @
     [0xD83D, 0xDCDD] @ js '' Subject: '' @ subject d @ js ''\<newline>'' @
     js ''\<newline>'' @
     replicate 43 0x2500 @ js ''\<newline>'' @
     js ''MESSAGE\<newline>'' @
     replicate 43 0x2500 @ js ''\<newline>'' @
     js ''\<newline>'' @
     message d @ js ''\<newline>'' @
     js ''\<newline>'' @
     replicate 43 0x2550 @ js ''\<newline>'' @
     js ''Sent from Ajay Jaiswar's Portfolio Website\<newline>'' @
     replicate 43 0x2550 @ js ''\<newline>'' @
     js ''    ''\<close>

subsection \<open>\<open>GET /api/health\<close>\<close>

definition health :: "runtime \<Rightarrow> world \<Rightarrow> response \<times> world" where
  "health rt w =
     (\<lparr>status = 200, headers = [],
       body = Some (JObject
         [(js ''status'', JString (js ''ok'')),
          (js ''message'', JString (js ''Portfolio API is running'')),
          (js ''timestamp'', JString (date_iso rt)),
          (js ''emailConfigured'', JBool (transporter w \<noteq> None))])\<rparr>, w)"

subsection \<open>\<open>POST /api/contact\<close>\<close>

definition thank_you :: jsstring where
  "thank_you = js ''Thank you for your message! I will get back to you soon.''"

definition failure_message :: jsstring where
  "failure_message = js ''Sorry, there was an error sending your message. Please try again later.''"

definition rejected :: "(jsstring \<times> jsstring) list \<Rightarrow> jsstring list \<Rightarrow> response" where
  "rejected hs errors =
     \<lparr>status = 400, headers = hs,
      body = Some (JObject [(js ''success'', JBool False),
                            (js ''errors'', JArray (map JString errors))])\<rparr>"

definition accepted :: "(jsstring \<times> jsstring) list \<Rightarrow> response" where
  "accepted hs =
     \<lparr>status = 200, headers = hs,
      body = Some (JObject [(js ''success'', JBool True),
                            (js ''message'', JString thank_you)])\<rparr>"

definition failed :: "(jsstring \<times> jsstring) list \<Rightarrow> response" where
  "failed hs =
     \<lparr>status = 500, headers = hs,
      body = Some (JObject [(js ''success'', JBool False),
                            (js ''message'', JString failure_message)])\<rparr>"

definition console_submission :: "runtime \<Rightarrow> submission \<Rightarrow> event list" where
  \<open>console_submission rt d =
     [ConsoleLog [(js ''\<newline>'' @ [0x2554] @ replicate 43 0x2550 @ [0x2557])],
      ConsoleLog [([0x2551] @ js ''     NEW CONTACT FORM SUBMISSION           '' @ [0x2551])],
      ConsoleLog [([0x2560] @ replicate 43 0x2550 @ [0x2563])],
      ConsoleLog [([0x2551] @ js '' Time:    '') @ date_console rt],
      ConsoleLog [([0x2551] @ js '' Name:    '') @ name d],
      ConsoleLog [([0x2551] @ js '' Email:   '') @ email d],
      ConsoleLog [([0x2551] @ js '' Subject: '') @ subject d],
      ConsoleLog [([0x2560] @ replicate 43 0x2550 @ [0x2563])],
      ConsoleLog [([0x2551] @ js '' Message: '') @ substring_0_50 (message d) @ js ''...''],
      ConsoleLog [([0x255A] @ replicate 43 0x2550 @ [0x255D] @ js ''\<newline>'')]]\<close>

definition server_mailOptions :: "runtime \<Rightarrow> submission \<Rightarrow> mailOptions" where
  \<open>server_mailOptions rt d =
     \<lparr>mo_from = js ''"Portfolio Contact" <'' @ interpolate (EMAIL_USER rt) @ js ''>'',
      mo_to = js_or (EMAIL_TO rt) (EMAIL_USER rt),
      mo_replyTo = email d,
      mo_subject = ([0xD83D, 0xDE80] @ js '' Portfolio: '') @ subject d,
      mo_html = generateEmailTemplate rt d,
      mo_text = generatePlainTextEmail rt d\<rparr>\<close>

text \<open>
  The route's \<open>try\<close> block; the \<open>catch\<close> is the \<open>Inl\<close> branch of \<open>sendMail\<close>, the only call in
  the block that the model lets throw (\<open>saveSubmissionToFile\<close> catches its own error).
\<close>

definition contact_post :: "runtime \<Rightarrow> submission \<Rightarrow> world \<Rightarrow> response \<times> world" where
  \<open>contact_post rt d w =
     (let errors = validate d in
      if length errors > 0 then (rejected [] errors, w)
      else
        let w = emit (console_submission rt d) w;
            w = saveSubmissionToFile rt d w
        in case transporter w of
             Some t \<Rightarrow>
               (let mailOptions = server_mailOptions rt d;
                    w = emit [SendMail t mailOptions] w
                in case sendMail rt t mailOptions of
                     Inr previewUrl \<Rightarrow>
                       (accepted [],
                        emit [ConsoleLog [([0x2705] @ js '' Email sent successfully!'')],
                              (case previewUrl of
                                 Some url \<Rightarrow> ConsoleLog [([0xD83D, 0xDD17] @ js '' Preview email at:''), url]
                               | None \<Rightarrow>
                                   ConsoleLog [([0xD83D, 0xDCE7] @ js '' Sent to:''),
                                     interpolate (js_or (EMAIL_TO rt) (EMAIL_USER rt))])] w)
                   | Inl error \<Rightarrow>
                       (failed [],
                        emit [ConsoleError [([0x274C] @ js '' Contact form error:''), error]] w))
           | None \<Rightarrow>
               (accepted [],
                emit [ConsoleLog [([0x26A0, 0xFE0F] @ js ''  Email not sent (not configured). Data logged above.'')]] w))\<close>

section \<open>The serverless functions\<close>

subsection \<open>\<open>api/health\<close>\<close>

definition health_function :: "runtime \<Rightarrow> response" where
  "health_function rt =
     \<lparr>status = 200, headers = [],
      body = Some (JObject
        [(js ''status'', JString (js ''ok'')),
         (js ''message'', JString (js ''Portfolio API is running'')),
         (js ''timestamp'', JString (date_iso rt))])\<rparr>"

subsection \<open>\<open>api/contact\<close>\<close>

definition function_template :: "runtime \<Rightarrow> submission \<Rightarrow> jsstring" where
  \<open>function_template rt d =
     (let currentDate = date_template rt in
     js ''\<newline>'' @
     js ''<!DOCTYPE html>\<newline>'' @
     js ''<html lang="en">\<newline>'' @
     js ''<head>\<newline>'' @
     js ''    <meta charset="UTF-8">\<newline>'' @
     js ''    <meta name="viewport" content="width=device-width, initial-scale=1.0">\<newline>'' @
     js ''    <title>New Contact Form Submission</title>\<newline>'' @
     js ''</head>\<newline>'' @
     js ''<body style="margin: 0; padding: 0; font-family: 'Segoe UI', Tahoma, Geneva, Verdana, sans-serif; background-color: #0a0a0f;">\<newline>'' @
     js ''    <table role="presentation" width="100%" cellspacing="0" cellpadding="0" style="background-color: #0a0a0f; padding: 40px 20px;">\<newline>'' @
     js ''        <tr>\<newline>'' @
     js ''            <td align="center">\<newline>'' @
     js ''                <table role="presentation" width="600" cellspacing="0" cellpadding="0" style="background: linear-gradient(145deg, #0d1b2a, #1a1a2e); border-radius: 16px; overflow: hidden; box-shadow: 0 20px 60px rgba(0, 212, 255, 0.15);">\<newline>'' @
     js ''                    <tr>\<newline>'' @
     js ''                        <td style="background: linear-gradient(135deg, #00d4ff, #00ffcc); padding: 30px 40px; text-align: center;">\<newline>'' @
     js ''                            <h1 style="margin: 0; color: #0a0a0f; font-size: 28px; font-weight: 700;">New Message Received</h1>\<newline>'' @
     js ''                            <p style="margin: 10px 0 0; color: #0d1b2a; font-size: 14px;">Someone contacted you through your portfolio</p>\<newline>'' @
     js ''                        </td>\<newline>'' @
     js ''                    </tr>\<newline>'' @
     js ''                    <tr>\<newline>'' @
     js ''                        <td style="padding: 20px 40px 0; text-align: center;">\<newline>'' @
     js ''                            <p style="margin: 0; color: #a0a0a0; font-size: 12px;">'' @ currentDate @ js ''</p>\<newline>'' @
     js ''                        </td>\<newline>'' @
     js ''                    </tr>\<newline>'' @
     js ''                    <tr>\<newline>'' @
     js ''                        <td style="padding: 30px 40px;">\<newline>'' @
     js ''                            <div style="padding: 15px 20px; background: rgba(255,255,255,0.03); border-radius: 12px; margin-bottom: 12px;">\<newline>'' @
     js ''                                <p style="margin: 0 0 4px; color: #a0a0a0; font-size: 11px; text-transform: uppercase;">Name</p>\<newline>'' @
     js ''                                <p style="margin: 0; color: #ffffff; font-size: 16px; font-weight: 600;">'' @ escapeHtml (name d) @ js ''</p>\<newline>'' @
     js ''                            </div>\<newline>'' @
     js ''                            <div style="padding: 15px 20px; background: rgba(255,255,255,0.03); border-radius: 12px; margin-bottom: 12px;">\<newline>'' @
     js ''                                <p style="margin: 0 0 4px; color: #a0a0a0; font-size: 11px; text-transform: uppercase;">Email</p>\<newline>'' @
     js ''                                <a href="mailto:'' @ escapeHtml (email d) @ js ''" style="color: #00d4ff; font-size: 16px; font-weight: 600; text-decoration: none;">'' @ escapeHtml (email d) @ js ''</a>\<newline>'' @
     js ''                            </div>\<newline>'' @
     js ''                            <div style="padding: 15px 20px; background: rgba(255,255,255,0.03); border-radius: 12px;">\<newline>'' @
     js ''                                <p style="margin: 0 0 4px; color: #a0a0a0; font-size: 11px; text-transform: uppercase;">Subject</p>\<newline>'' @
     js ''                                <p style="margin: 0; color: #ffffff; font-size: 16px; font-weight: 600;">'' @ escapeHtml (subject d) @ js ''</p>\<newline>'' @
     js ''                            </div>\<newline>'' @
     js ''                        </td>\<newline>'' @
     js ''                    </tr>\<newline>'' @
     js ''                    <tr>\<newline>'' @
     js ''                        <td style="padding: 0 40px 30px;">\<newline>'' @
     js ''                            <div style="background: rgba(0, 212, 255, 0.05); border: 1px solid rgba(0, 212, 255, 0.2); border-radius: 12px; padding: 25px;">\<newline>'' @
     js ''                                <p style="margin: 0 0 12px; color: #00d4ff; font-size: 13px; text-transform: uppercase; font-weight: 600;">Message</p>\<newline>'' @
     js ''                                <p style="margin: 0; color: #e0e0e0; font-size: 15px; line-height: 1.7; white-space: pre-wrap;">'' @ escapeHtml (message d) @ js ''</p>\<newline>'' @
     js ''                            </div>\<newline>'' @
     js ''                        </td>\<newline>'' @
     js ''                    </tr>\<newline>'' @
     js ''                    <tr>\<newline>'' @
     js ''                        <td style="padding: 0 40px 30px; text-align: center;">\<newline>'' @
     js ''                            <a href="mailto:'' @ escapeHtml (email d) @ js ''?subject=Re: '' @ escapeHtml (subject d) @ js ''" style="display: inline-block; background: linear-gradient(135deg, #00d4ff, #00ffcc); color: #0a0a0f; text-decoration: none; padding: 14px 40px; border-radius: 8px; font-weight: 600; font-size: 14px;">Reply to '' @ escapeHtml (first_split (name d)) @ js ''</a>\<newline>'' @
     js ''                        </td>\<newline>'' @
     js ''                    </tr>\<newline>'' @
     js ''                    <tr>\<newline>'' @
     js ''                        <td style="background: rgba(0,0,0,0.3); padding: 25px 40px; text-align: center; border-top: 1px solid rgba(255,255,255,0.05);">\<newline>'' @
     js ''                            <p style="margin: 0 0 8px; color: #ffffff; font-size: 16px; font-weight: 700;">Ajay Jaiswar</p>\<newline>'' @
     js ''                            <p style="margin: 0; color: #a0a0a0; font-size: 12px;">QA Analyst & Frontend Developer</p>\<newline>'' @
     js ''                        </td>\<newline>'' @
     js ''                    </tr>\<newline>'' @
     js ''                </table>\<newline>'' @
     js ''            </td>\<newline>'' @
     js ''        </tr>\<newline>'' @
     js ''    </table>\<newline>'' @
     js ''</body>\<newline>'' @
     js ''</html>\<newline>'' @
     js ''    '')\<close>

definition cors_headers :: "(jsstring \<times> jsstring) list" where
  "cors_headers =
     [(js ''Access-Control-Allow-Credentials'', js ''true''),
      (js ''Access-Control-Allow-Origin'', js ''*''),
      (js ''Access-Control-Allow-Methods'', js ''GET,OPTIONS,PATCH,DELETE,POST,PUT''),
      (js ''Access-Control-Allow-Headers'', js ''Content-Type'')]"

definition function_mailOptions :: "runtime \<Rightarrow> submission \<Rightarrow> mailOptions" where
  \<open>function_mailOptions rt d =
     \<lparr>mo_from = js ''"Portfolio Contact" <'' @
                 interpolate (js_or (EMAIL_USER rt) (Some (js ''noreply@portfolio.com''))) @ js ''>'',
      mo_to = js_or (js_or (EMAIL_TO rt) (EMAIL_USER rt)) (Some (js ''ajayjaiswar6340@gmail.com'')),
      mo_replyTo = email d,
      mo_subject = js ''Portfolio: '' @ subject d,
      mo_html = function_template rt d,
      mo_text = js ''Name: '' @ name d @ js ''\<newline>Email: '' @ email d @
                js ''\<newline>Subject: '' @ subject d @ js ''\<newline>Message: '' @ message d\<rparr>\<close>

text \<open>
  The function builds its transport on every request, after validation. Either
  \<open>createTestAccount\<close> or \<open>sendMail\<close> may throw into the \<open>catch\<close>.
\<close>

definition function_send ::
  "runtime \<Rightarrow> submission \<Rightarrow> transport_config \<Rightarrow> world \<Rightarrow> response \<times> world" where
  "function_send rt d t w =
     (let w = emit [CreateTransport t] w;
          mailOptions = function_mailOptions rt d;
          w = emit [SendMail t mailOptions] w
      in case sendMail rt t mailOptions of
           Inr info \<Rightarrow> (accepted cors_headers, w)
         | Inl error \<Rightarrow>
             (failed cors_headers, emit [ConsoleError [js ''Contact form error:'', error]] w))"

definition contact_function ::
  "runtime \<Rightarrow> jsstring \<Rightarrow> submission \<Rightarrow> world \<Rightarrow> response \<times> world" where
  "contact_function rt method d w =
     (if method = js ''OPTIONS'' then (\<lparr>status = 200, headers = cors_headers, body = None\<rparr>, w)
      else if method \<noteq> js ''POST'' then
        (\<lparr>status = 405, headers = cors_headers,
          body = Some (JObject [(js ''success'', JBool False),
                                (js ''message'', JString (js ''Method not allowed''))])\<rparr>, w)
      else
        let errors = validate d in
        if length errors > 0 then (rejected cors_headers errors, w)
        else if truthy (EMAIL_USER rt) \<and> truthy (EMAIL_PASS rt) then
          function_send rt d
            (smtp_transport rt (interpolate (EMAIL_USER rt)) (interpolate (EMAIL_PASS rt))) w
        else
          let w = emit [CreateTestAccount] w in
          case createTestAccount rt of
            Inr (user, pass) \<Rightarrow> function_send rt d (ethereal_transport user pass) w
          | Inl error \<Rightarrow>
              (failed cors_headers, emit [ConsoleError [js ''Contact form error:'', error]] w))"

section \<open>Events of one request\<close>

text \<open>The events a handler added to the trace.\<close>

definition new_events :: "world \<Rightarrow> world \<Rightarrow> event list" where
  "new_events w w' = drop (length (trace w)) (trace w')"

section \<open>Searching for \<open><script>\<close>\<close>

text \<open>
  \<open>scan\<close> reads a string from left to right and keeps the length of the longest prefix of
  \<open><script>\<close> that ends at the current position; state 8 means the tag has been read and is
  kept for ever. Since \<open><\<close> occurs in the tag only at its start, a mismatch falls back to
  state 1 (on \<open><\<close>) or 0. \<open>scan_ascii\<close> is the same automaton on the ASCII text of a source
  literal.
\<close>

definition script_tag :: jsstring where
  "script_tag = js ''<script>''"

definition scan_step :: "nat \<Rightarrow> jschar \<Rightarrow> nat" where
  "scan_step k c =
     (if 8 \<le> k then 8
      else if c = 0x3C then 1
      else if script_tag ! k = c then Suc k
      else 0)"

definition scan :: "nat \<Rightarrow> jsstring \<Rightarrow> nat" where
  "scan k s = foldl scan_step k s"

definition scan_step_ascii :: "nat \<Rightarrow> char \<Rightarrow> nat" where
  "scan_step_ascii k c =
     (if c = CHR ''<'' then (if 8 \<le> k then 8 else 1)
      else if k = 0 then 0
      else if 8 \<le> k then 8
      else if k = 1 \<and> c = CHR ''s'' then 2
      else if k = 2 \<and> c = CHR ''c'' then 3
      else if k = 3 \<and> c = CHR ''r'' then 4
      else if k = 4 \<and> c = CHR ''i'' then 5
      else if k = 5 \<and> c = CHR ''p'' then 6
      else if k = 6 \<and> c = CHR ''t'' then 7
      else if k = 7 \<and> c = CHR ''>'' then 8
      else 0)"

definition scan_ascii :: "nat \<Rightarrow> string \<Rightarrow> nat" where
  "scan_ascii k s = foldl scan_step_ascii k s"

section \<open>Fixed text with slots\<close>

text \<open>
  \<open>fill ps ss\<close> is the text made of the pieces \<open>ps\<close> with the slot values \<open>ss\<close> between them:
  piece, slot, piece, slot, ..., piece.
\<close>

fun fill :: "'a list list \<Rightarrow> 'a list list \<Rightarrow> 'a list" where
  "fill (p # ps) (s # ss) = p @ s @ fill ps ss"
| "fill ps [] = concat ps"
| "fill [] ss = concat ss"

section \<open>Concrete requests and environments\<close>

definition scenario1 :: submission where
  "scenario1 =
     \<lparr>name = js ''Al'', email = js ''a@b.co'', subject = js ''Hi!'',
      message = js ''This message is long enough to pass the check.''\<rparr>"

definition scenario2 :: submission where
  "scenario2 =
     \<lparr>name = js ''A'', email = js ''bad'', subject = js ''Hi!'', message = js ''short''\<rparr>"

definition script_submission :: submission where
  "script_submission =
     \<lparr>name = js ''<script>'', email = js ''a@b.co'', subject = js ''Hi!'',
      message = js ''This message is long enough to pass the check.''\<rparr>"

definition example_runtime :: runtime where
  "example_runtime =
     \<lparr>EMAIL_HOST = None, EMAIL_PORT_parsed = None, EMAIL_USER = None, EMAIL_PASS = None,
      EMAIL_TO = None,
      SUBMISSIONS_FILE = js ''/app/contact_submissions.txt'',
      date_template = js ''Sunday 1 November 2026 at 11:10 pm'',
      date_plaintext = js ''1/11/2026, 11:10:05 pm'',
      date_logfile = js ''Sunday 1 November 2026 at 11:10:05 pm'',
      date_console = js ''11/1/2026, 11:10:05 PM'',
      date_iso = js ''2026-11-01T17:40:05.000Z'',
      appendFileSync_error = None,
      createTestAccount = Inr (js ''someone@ethereal.email'', js ''secret''),
      verify = (\<lambda>t. None),
      sendMail = (\<lambda>t m. Inr None)\<rparr>"

definition failing_send_runtime :: runtime where
  "failing_send_runtime = example_runtime\<lparr>sendMail := (\<lambda>t m. Inl (js ''ECONNREFUSED''))\<rparr>"

definition full_disk_runtime :: runtime where
  "full_disk_runtime = example_runtime\<lparr>appendFileSync_error := Some (js ''ENOSPC'')\<rparr>"


definition example_transport :: transport_config where
  "example_transport = ethereal_transport (js ''someone@ethereal.email'') (js ''secret'')"

definition configured_world :: world where
  "configured_world = initial_world\<lparr>transporter := Some example_transport\<rparr>"


section \<open>Validation accepts exactly the well-formed submissions\<close>

lemma regex_test_Once:
  "regex_test (Once a # r) s \<longleftrightarrow> (\<exists>c q. s = c # q \<and> atom_matches a c \<and> regex_test r q)"
  by (cases s) auto

lemma regex_test_OneOrMore:
  "regex_test (OneOrMore a # r) s \<longleftrightarrow>
     (\<exists>p q. s = p @ q \<and> p \<noteq> [] \<and> (\<forall>c \<in> set p. atom_matches a c) \<and> regex_test r q)"
proof (induction s)
  case Nil
  then show ?case by simp
next
  case (Cons c s)
  show ?case
  proof
    assume "regex_test (OneOrMore a # r) (c # s)"
    then have c: "atom_matches a c"
      and rest: "regex_test (OneOrMore a # r) s \<or> regex_test r s"
      by simp_all
    from rest show "\<exists>p q. c # s = p @ q \<and> p \<noteq> [] \<and> (\<forall>c \<in> set p. atom_matches a c) \<and> regex_test r q"
    proof
      assume "regex_test (OneOrMore a # r) s"
      with Cons.IH obtain p q where "s = p @ q" "\<forall>c \<in> set p. atom_matches a c" "regex_test r q"
        by blast
      with c have "c # s = (c # p) @ q \<and> c # p \<noteq> [] \<and> (\<forall>x \<in> set (c # p). atom_matches a x) \<and> regex_test r q"
        by simp
      then show ?thesis by blast
    next
      assume "regex_test r s"
      with c have "c # s = [c] @ s \<and> [c] \<noteq> [] \<and> (\<forall>x \<in> set [c]. atom_matches a x) \<and> regex_test r s"
        by simp
      then show ?thesis by blast
    qed
  next
    assume "\<exists>p q. c # s = p @ q \<and> p \<noteq> [] \<and> (\<forall>c \<in> set p. atom_matches a c) \<and> regex_test r q"
    then obtain p q where pq: "c # s = p @ q" "p \<noteq> []" "\<forall>c \<in> set p. atom_matches a c" "regex_test r q"
      by blast
    then obtain p' where p: "p = c # p'" "s = p' @ q"
      by (cases p) auto
    show "regex_test (OneOrMore a # r) (c # s)"
    proof (cases "p' = []")
      case True
      with p pq show ?thesis by simp
    next
      case False
      with p pq have "regex_test (OneOrMore a # r) s"
        using Cons.IH by auto
      with p pq show ?thesis by simp
    qed
  qed
qed

lemma emailPart_atom:
  "emailPart p \<longleftrightarrow>
     p \<noteq> [] \<and> (\<forall>c \<in> set p. atom_matches (NegatedClass [WhiteSpaceClass, CharItem 0x40]) c)"
  by (simp add: emailPart_def)

lemma isValidEmail_iff: "isValidEmail s \<longleftrightarrow> emailPattern s"
proof
  assume "isValidEmail s"
  then obtain l q1 where 1: "s = l @ q1" "emailPart l"
      "regex_test [Once (Literal 0x40), OneOrMore (NegatedClass [WhiteSpaceClass, CharItem 0x40]),
         Once (Literal 0x2E), OneOrMore (NegatedClass [WhiteSpaceClass, CharItem 0x40])] q1"
    unfolding isValidEmail_def emailRegex_def regex_test_OneOrMore [of _ "Once (Literal 0x40) # _"] emailPart_atom
    by blast
  from 1(3) obtain q2 where 2: "q1 = 0x40 # q2"
      "regex_test [OneOrMore (NegatedClass [WhiteSpaceClass, CharItem 0x40]),
         Once (Literal 0x2E), OneOrMore (NegatedClass [WhiteSpaceClass, CharItem 0x40])] q2"
    unfolding regex_test_Once by auto
  from 2(2) obtain dm q3 where 3: "q2 = dm @ q3" "emailPart dm"
      "regex_test [Once (Literal 0x2E), OneOrMore (NegatedClass [WhiteSpaceClass, CharItem 0x40])] q3"
    unfolding regex_test_OneOrMore [of _ "Once (Literal 0x2E) # _"] emailPart_atom by blast
  from 3(3) obtain q4 where 4: "q3 = 0x2E # q4"
      "regex_test [OneOrMore (NegatedClass [WhiteSpaceClass, CharItem 0x40])] q4"
    unfolding regex_test_Once by auto
  from 4(2) obtain t q5 where 5: "q4 = t @ q5" "emailPart t" "regex_test [] q5"
    unfolding regex_test_OneOrMore [of _ "[]"] emailPart_atom by blast
  from 5(3) have "q5 = []" by simp
  with 1 2 3 4 5 have "s = l @ [0x40] @ dm @ [0x2E] @ t" by simp
  with 1(2) 3(2) 5(2) show "emailPattern s"
    unfolding emailPattern_def by blast
next
  assume "emailPattern s"
  then obtain l dm t where s: "s = l @ [0x40] @ dm @ [0x2E] @ t"
    and parts: "emailPart l" "emailPart dm" "emailPart t"
    unfolding emailPattern_def by blast
  have 5: "regex_test [OneOrMore (NegatedClass [WhiteSpaceClass, CharItem 0x40])] t"
    unfolding regex_test_OneOrMore [of _ "[]"]
    using parts(3) [unfolded emailPart_atom] by (intro exI [of _ t] exI [of _ "[]"]) simp
  have 4: "regex_test [Once (Literal 0x2E), OneOrMore (NegatedClass [WhiteSpaceClass, CharItem 0x40])]
             ([0x2E] @ t)"
    using 5 by simp
  have 3: "regex_test [OneOrMore (NegatedClass [WhiteSpaceClass, CharItem 0x40]),
             Once (Literal 0x2E), OneOrMore (NegatedClass [WhiteSpaceClass, CharItem 0x40])]
             (dm @ [0x2E] @ t)"
    unfolding regex_test_OneOrMore [of _ "Once (Literal 0x2E) # _"]
    using parts(2) [unfolded emailPart_atom] 4
    by (intro exI [of _ dm] exI [of _ "[0x2E] @ t"]) simp
  have 2: "regex_test [Once (Literal 0x40), OneOrMore (NegatedClass [WhiteSpaceClass, CharItem 0x40]),
             Once (Literal 0x2E), OneOrMore (NegatedClass [WhiteSpaceClass, CharItem 0x40])]
             ([0x40] @ dm @ [0x2E] @ t)"
    using 3 by simp
  have "regex_test emailRegex (l @ [0x40] @ dm @ [0x2E] @ t)"
    unfolding emailRegex_def regex_test_OneOrMore [of _ "Once (Literal 0x40) # _"]
    using parts(1) [unfolded emailPart_atom] 2
    by (intro exI [of _ l] exI [of _ "[0x40] @ dm @ [0x2E] @ t"]) simp
  with s show "isValidEmail s"
    by (simp add: isValidEmail_def)
qed

lemma not_emailPattern_Nil: "\<not> emailPattern []"
  by (simp add: emailPattern_def)

lemma trim_Nil: "trim [] = []"
  by (simp add: trim_def)

text \<open>
  Claim C1. For four strings, validation leaves the \<open>errors\<close> array empty, so that the
  submission is accepted as valid, exactly when the trimmed name has at least 2 code units, the
  email has the shape local part, \<open>@\<close>, domain part, \<open>.\<close>, final part (each a non-empty run
  of code units that are neither white space nor \<open>@\<close>), the trimmed subject has at least 3
  code units and the trimmed message at least 20.
\<close>

theorem validate_valid_iff:
  "validate d = [] \<longleftrightarrow>
     2 \<le> length (trim (name d)) \<and> emailPattern (email d) \<and>
     3 \<le> length (trim (subject d)) \<and> 20 \<le> length (trim (message d))"
proof -
  have n: "name d = [] \<or> length (trim (name d)) < 2 \<longleftrightarrow> \<not> 2 \<le> length (trim (name d))"
    by (auto simp: trim_Nil)
  have e: "email d = [] \<or> \<not> isValidEmail (email d) \<longleftrightarrow> \<not> emailPattern (email d)"
    using not_emailPattern_Nil by (auto simp: isValidEmail_iff)
  have s: "subject d = [] \<or> length (trim (subject d)) < 3 \<longleftrightarrow> \<not> 3 \<le> length (trim (subject d))"
    by (auto simp: trim_Nil)
  have m: "message d = [] \<or> length (trim (message d)) < 20 \<longleftrightarrow> \<not> 20 \<le> length (trim (message d))"
    by (auto simp: trim_Nil)
  show ?thesis
    unfolding validate_def Let_def n e s m by simp
qed

lemma validate_scenario1: "validate scenario1 = []"
  by (simp add: validate_def scenario1_def Let_def trim_def isWhiteSpace_def js_def
      isValidEmail_def emailRegex_def)

lemma validate_scenario2: "validate scenario2 = [name_error, email_error, message_error]"
  by (simp add: validate_def scenario2_def Let_def trim_def isWhiteSpace_def js_def
      isValidEmail_def emailRegex_def)

theorem validate_valid_iff_witness:
  "validate scenario1 = [] \<and> 2 \<le> length (trim (name scenario1)) \<and> emailPattern (email scenario1) \<and>
     3 \<le> length (trim (subject scenario1)) \<and> 20 \<le> length (trim (message scenario1))"
  using validate_valid_iff [of scenario1] validate_scenario1 by simp

section \<open>Correctness of the search for \<open><script>\<close>\<close>

lemma of_char_nat_less: "(of_char c :: nat) < 256"
proof -
  have "(of_char c :: nat) mod 256 = of_char c"
    by (rule of_char_mod_256)
  then show ?thesis
    by (metis mod_less_divisor zero_less_numeral)
qed

lemma of_char_word_eq_iff: "(of_char c :: jschar) = of_char e \<longleftrightarrow> c = e"
proof
  assume eq: "(of_char c :: jschar) = of_char e"
  have "(of_nat (of_char c) :: jschar) = of_nat (of_char e)"
    using eq by (simp only: of_nat_of_char)
  then have "take_bit 16 (of_char c :: nat) = take_bit 16 (of_char e :: nat)"
    by (simp add: word_of_nat_eq_iff)
  moreover have "(of_char c :: nat) < 2 ^ 16"
    using of_char_nat_less [of c] by (rule less_le_trans) simp
  moreover have "(of_char e :: nat) < 2 ^ 16"
    using of_char_nat_less [of e] by (rule less_le_trans) simp
  ultimately have "(of_char c :: nat) = of_char e"
    by (simp add: take_bit_nat_eq_self)
  then show "c = e" by simp
qed simp

lemma length_script_tag: "length script_tag = 8"
  by (simp add: script_tag_def js_def)

lemma script_tag_nth:
  "k < 8 \<Longrightarrow> script_tag ! k = of_char (''<script>'' ! k)"
  unfolding script_tag_def js_def by (rule nth_map) simp

lemma lt_code: "(0x3C :: jschar) = of_char CHR ''<''"
  by simp

lemma scan_step_of_char: "scan_step k (of_char c) = scan_step_ascii k c"
proof -
  consider "k = 0" | "k = 1" | "k = 2" | "k = 3" | "k = 4" | "k = 5" | "k = 6" | "k = 7" | "8 \<le> k"
    by linarith
  then show ?thesis
    by cases
      (simp_all add: scan_step_def scan_step_ascii_def script_tag_nth lt_code of_char_word_eq_iff
        del: of_char_Char)
qed

lemma scan_append: "scan k (a @ b) = scan (scan k a) b"
  by (simp add: scan_def)

lemma scan_Nil: "scan k [] = k"
  by (simp add: scan_def)

lemma scan_Cons: "scan k (c # s) = scan (scan_step k c) s"
  by (simp add: scan_def)

lemma scan_ascii_Nil: "scan_ascii k [] = k"
  by (simp add: scan_ascii_def)

lemma scan_ascii_Cons: "scan_ascii k (c # s) = scan_ascii (scan_step_ascii k c) s"
  by (simp add: scan_ascii_def)

lemma scan_js: "scan k (js s) = scan_ascii k s"
  by (induction s arbitrary: k)
    (simp_all add: js_def scan_Nil scan_Cons scan_ascii_Nil scan_ascii_Cons scan_step_of_char
      del: of_char_Char)

lemma scan_weak_cong: "k = k' \<Longrightarrow> scan k s = scan k' s"
  by simp

lemma scan_ascii_weak_cong: "k = k' \<Longrightarrow> scan_ascii k s = scan_ascii k' s"
  by simp

lemma scan_absorb: "scan 8 s = 8"
  by (induction s) (simp_all add: scan_Nil scan_Cons scan_step_def)

lemma scan_script_tag: "scan k script_tag = 8"
proof -
  have first: "scan_step_ascii k CHR ''<'' = (if 8 \<le> k then 8 else 1)"
    by (simp add: scan_step_ascii_def)
  have from1: "scan_ascii 1 ''script>'' = 8"
    by (simp add: scan_ascii_Cons scan_ascii_Nil scan_step_ascii_def)
  have from8: "scan_ascii 8 ''script>'' = 8"
    by (simp add: scan_ascii_Cons scan_ascii_Nil scan_step_ascii_def)
  have "scan k script_tag = scan_ascii (scan_step_ascii k CHR ''<'') ''script>''"
    by (simp only: script_tag_def scan_js scan_ascii_Cons)
  with first from1 from8 show ?thesis
    by simp
qed

lemma sublist_scan: "sublist script_tag s \<Longrightarrow> scan k s = 8"
  by (auto simp: sublist_def scan_append scan_script_tag scan_absorb)

lemma scan_invariant:
  "scan 0 s \<le> 8 \<and> (scan 0 s = 8 \<longrightarrow> sublist script_tag s) \<and>
   (scan 0 s < 8 \<longrightarrow> suffix (take (scan 0 s) script_tag) s)"
proof (induction s rule: rev_induct)
  case Nil
  then show ?case by (simp add: scan_Nil)
next
  case (snoc c s)
  let ?k = "scan 0 s"
  have step: "scan 0 (s @ [c]) = scan_step ?k c"
    by (simp add: scan_append scan_Cons scan_Nil)
  show ?case
  proof (cases "?k = 8")
    case True
    with snoc have "sublist script_tag s" by simp
    then have "sublist script_tag (s @ [c])"
      by (auto simp: sublist_def) (metis append.assoc)
    with True step show ?thesis by (simp add: scan_step_def)
  next
    case False
    with snoc have k: "?k < 8" and suf: "suffix (take ?k script_tag) s" by simp_all
    show ?thesis
    proof (cases "c = 0x3C")
      case True
      have "take 1 script_tag = [c]"
        using True by (simp add: script_tag_def js_def)
      then have "suffix (take 1 script_tag) (s @ [c])"
        by (simp add: suffix_def)
      with True k step show ?thesis by (simp add: scan_step_def)
    next
      case c: False
      show ?thesis
      proof (cases "script_tag ! ?k = c")
        case True
        have new: "scan 0 (s @ [c]) = Suc ?k"
          using step k c True by (simp add: scan_step_def)
        have "take (Suc ?k) script_tag = take ?k script_tag @ [c]"
          using k True by (simp add: take_Suc_conv_app_nth length_script_tag)
        with suf have suf': "suffix (take (Suc ?k) script_tag) (s @ [c])"
          by simp
        show ?thesis
        proof (cases "Suc ?k = 8")
          case True
          with suf' have "suffix script_tag (s @ [c])"
            by (simp add: length_script_tag)
          then have "sublist script_tag (s @ [c])"
            by (rule suffix_imp_sublist)
          with new True show ?thesis by simp
        next
          case False
          with k new suf' show ?thesis by simp
        qed
      next
        case False
        with step k c show ?thesis by (simp add: scan_step_def)
      qed
    qed
  qed
qed

lemma scan_iff_sublist: "scan 0 s = 8 \<longleftrightarrow> sublist script_tag s"
  using scan_invariant [of s] sublist_scan [of s 0] by blast

lemma scan_escapeChar: "scan 0 (escapeChar c) = 0"
  by (simp add: escapeChar_def scan_js scan_ascii_Cons scan_ascii_Nil scan_step_ascii_def
      scan_Cons scan_Nil scan_step_def script_tag_def js_def)

lemma scan_escapeHtml: "scan 0 (escapeHtml t) = 0"
  by (induction t) (simp_all add: escapeHtml_def scan_Nil scan_append scan_escapeChar)

lemmas scan_eval =
  scan_append scan_js scan_ascii_Cons scan_ascii_Nil scan_Cons scan_Nil scan_escapeHtml


lemma date_state:
  assumes "\<not> sublist script_tag s"
  shows "\<not> 8 \<le> scan 0 s"
proof -
  have "scan 0 s \<noteq> 8"
    using assms by (simp add: scan_iff_sublist)
  moreover have "scan 0 s \<le> 8"
    using scan_invariant by blast
  ultimately show ?thesis
    by simp
qed


lemma scan_step_ascii_at:
  "scan_step_ascii 0 c = (if c = CHR ''<'' then 1 else 0)"
  "scan_step_ascii (Suc 0) c = (if c = CHR ''<'' then 1 else if c = CHR ''s'' then 2 else 0)"
  "scan_step_ascii 2 c = (if c = CHR ''<'' then 1 else if c = CHR ''c'' then 3 else 0)"
  "scan_step_ascii 3 c = (if c = CHR ''<'' then 1 else if c = CHR ''r'' then 4 else 0)"
  "scan_step_ascii 4 c = (if c = CHR ''<'' then 1 else if c = CHR ''i'' then 5 else 0)"
  "scan_step_ascii 5 c = (if c = CHR ''<'' then 1 else if c = CHR ''p'' then 6 else 0)"
  "scan_step_ascii 6 c = (if c = CHR ''<'' then 1 else if c = CHR ''t'' then 7 else 0)"
  "scan_step_ascii 7 c = (if c = CHR ''<'' then 1 else if c = CHR ''>'' then 8 else 0)"
  by (simp_all add: scan_step_ascii_def)

lemma scan_step_other: "c \<noteq> 0x3C \<Longrightarrow> scan_step 0 c = 0"
  by (simp add: scan_step_def script_tag_def js_def)

lemma after_date:
  assumes "\<not> sublist script_tag s"
  shows "scan_step_ascii (scan 0 s) CHR 0x0A = 0"
    and "scan_step_ascii (scan 0 s) CHR ''<'' = 1"
  using date_state [OF assms] by (simp_all add: scan_step_ascii_def)

lemma generateEmailTemplate_scan:
  assumes "\<not> sublist script_tag (date_template rt)"
  shows "scan 0 (generateEmailTemplate rt d) = 0"
  unfolding generateEmailTemplate_def Let_def
  by (simp add: scan_eval scan_step_ascii_at scan_step_other after_date [OF assms]
      cong: scan_weak_cong scan_ascii_weak_cong)

lemma function_template_scan:
  assumes "\<not> sublist script_tag (date_template rt)"
  shows "scan 0 (function_template rt d) = 0"
  unfolding function_template_def Let_def
  by (simp add: scan_eval scan_step_ascii_at scan_step_other after_date [OF assms]
      cong: scan_weak_cong scan_ascii_weak_cong)

section \<open>Templates are fixed text around their slots\<close>

lemma fill_prepend: "fill ((a @ p) # ps) ss = a @ fill (p # ps) ss"
  by (cases ss) simp_all

lemma pieces_end:
  "\<exists>ps. \<forall>rt d. length ps = Suc (length ([] :: 'a list list)) \<and> (c :: 'a list) = fill ps []"
  by (rule exI [of _ "[c]"]) simp

lemma pieces_skip:
  assumes "\<exists>ps. \<forall>rt d. length ps = Suc (length (S rt d)) \<and> F rt d = fill ps (S rt d)"
  shows "\<exists>ps. \<forall>rt d. length ps = Suc (length (S rt d)) \<and> a @ F rt d = fill ps (S rt d)"
proof -
  from assms obtain ps where ps: "\<forall>rt d. length ps = Suc (length (S rt d)) \<and> F rt d = fill ps (S rt d)"
    by blast
  then obtain p ps' where split: "ps = p # ps'"
    by (cases ps) auto
  have "\<forall>rt d. length ((a @ p) # ps') = Suc (length (S rt d)) \<and>
      a @ F rt d = fill ((a @ p) # ps') (S rt d)"
    using ps split by (simp add: fill_prepend)
  then show ?thesis
    by blast
qed

lemma pieces_slot:
  assumes "\<exists>ps. \<forall>rt d. length ps = Suc (length (S rt d)) \<and> F rt d = fill ps (S rt d)"
  shows "\<exists>ps. \<forall>rt d. length ps = Suc (length (s rt d # S rt d)) \<and>
           s rt d @ F rt d = fill ps (s rt d # S rt d)"
proof -
  from assms obtain ps where "\<forall>rt d. length ps = Suc (length (S rt d)) \<and> F rt d = fill ps (S rt d)"
    by blast
  then have "\<forall>rt d. length ([] # ps) = Suc (length (s rt d # S rt d)) \<and>
      s rt d @ F rt d = fill ([] # ps) (s rt d # S rt d)"
    by simp
  then show ?thesis
    by blast
qed

lemma generateEmailTemplate_pieces:
  "\<exists>ps. \<forall>rt d. length ps =
       Suc (length [date_template rt, escapeHtml (name d), escapeHtml (email d),
         escapeHtml (email d), escapeHtml (subject d), escapeHtml (message d),
         escapeHtml (email d), escapeHtml (subject d), escapeHtml (first_split (name d))]) \<and>
     generateEmailTemplate rt d =
       fill ps [date_template rt, escapeHtml (name d), escapeHtml (email d),
         escapeHtml (email d), escapeHtml (subject d), escapeHtml (message d),
         escapeHtml (email d), escapeHtml (subject d), escapeHtml (first_split (name d))]"
  unfolding generateEmailTemplate_def Let_def
  by (intro pieces_skip pieces_slot, rule pieces_end)

lemma function_template_pieces:
  "\<exists>ps. \<forall>rt d. length ps =
       Suc (length [date_template rt, escapeHtml (name d), escapeHtml (email d),
         escapeHtml (email d), escapeHtml (subject d), escapeHtml (message d),
         escapeHtml (email d), escapeHtml (subject d), escapeHtml (first_split (name d))]) \<and>
     function_template rt d =
       fill ps [date_template rt, escapeHtml (name d), escapeHtml (email d),
         escapeHtml (email d), escapeHtml (subject d), escapeHtml (message d),
         escapeHtml (email d), escapeHtml (subject d), escapeHtml (first_split (name d))]"
  unfolding function_template_def Let_def
  by (intro pieces_skip pieces_slot, rule pieces_end)


lemma pieces_length:
  assumes "\<exists>ps. \<forall>rt d. length ps = Suc (length (S rt d)) \<and> F rt d = fill ps (S rt d)"
    and "\<And>rt d. length (S rt d) = n"
  shows "\<exists>ps. length ps = Suc n \<and> (\<forall>rt d. F rt d = fill ps (S rt d))"
  using assms by force

section \<open>Rejection and the order of the errors\<close>

lemma method_POST: "js ''POST'' \<noteq> js ''OPTIONS''"
  by (simp add: js_def)

lemma messages_distinct:
  "name_error \<noteq> email_error" "name_error \<noteq> subject_error" "name_error \<noteq> message_error"
  "email_error \<noteq> subject_error" "email_error \<noteq> message_error"
  "subject_error \<noteq> message_error"
  "email_error \<noteq> name_error" "subject_error \<noteq> name_error" "message_error \<noteq> name_error"
  "subject_error \<noteq> email_error" "message_error \<noteq> email_error"
  "message_error \<noteq> subject_error"
  by (simp_all add: name_error_def email_error_def subject_error_def message_error_def js_def)


lemma status_contact_post:
  "status (fst (contact_post rt d w)) = 400 \<longleftrightarrow> validate d \<noteq> []"
  by (simp add: contact_post_def Let_def rejected_def accepted_def failed_def
      split: option.splits sum.splits)

lemma status_contact_function:
  "status (fst (contact_function rt (js ''POST'') d w)) = 400 \<longleftrightarrow> validate d \<noteq> []"
  by (simp add: contact_function_def function_send_def Let_def method_POST rejected_def
      accepted_def failed_def split: option.splits sum.splits prod.splits)

text \<open>
  Claim C4. A handler answers 400 exactly when the error list is non-empty. Each of the four
  messages is in the list exactly when the check of its own field fails, whatever the other
  fields are, and the list is a subsequence of name, email, subject, message: the messages
  appear in the order of the checks.
\<close>

theorem errors_ordered_independent:
  "(status (fst (contact_post rt d w)) = 400 \<longleftrightarrow> validate d \<noteq> []) \<and>
   (status (fst (contact_function rt (js ''POST'') d w)) = 400 \<longleftrightarrow> validate d \<noteq> []) \<and>
   (name_error \<in> set (validate d) \<longleftrightarrow> name d = [] \<or> length (trim (name d)) < 2) \<and>
   (email_error \<in> set (validate d) \<longleftrightarrow> email d = [] \<or> \<not> isValidEmail (email d)) \<and>
   (subject_error \<in> set (validate d) \<longleftrightarrow> subject d = [] \<or> length (trim (subject d)) < 3) \<and>
   (message_error \<in> set (validate d) \<longleftrightarrow> message d = [] \<or> length (trim (message d)) < 20) \<and>
   subseq (validate d) [name_error, email_error, subject_error, message_error]"
proof -
  have n: "name_error \<in> set (validate d) \<longleftrightarrow> name d = [] \<or> length (trim (name d)) < 2"
    by (simp add: validate_def Let_def messages_distinct)
  have e: "email_error \<in> set (validate d) \<longleftrightarrow> email d = [] \<or> \<not> isValidEmail (email d)"
    by (simp add: validate_def Let_def messages_distinct)
  have s: "subject_error \<in> set (validate d) \<longleftrightarrow> subject d = [] \<or> length (trim (subject d)) < 3"
    by (simp add: validate_def Let_def messages_distinct)
  have m: "message_error \<in> set (validate d) \<longleftrightarrow> message d = [] \<or> length (trim (message d)) < 20"
    by (simp add: validate_def Let_def messages_distinct)
  have order: "subseq (validate d) [name_error, email_error, subject_error, message_error]"
    by (simp add: validate_def Let_def messages_distinct)
  from n e s m order status_contact_post status_contact_function show ?thesis
    by blast
qed

theorem errors_ordered_independent_witness:
  "status (fst (contact_post example_runtime scenario2 initial_world)) = 400 \<and>
   name_error \<in> set (validate scenario2) \<and> email_error \<in> set (validate scenario2) \<and>
   subject_error \<notin> set (validate scenario2) \<and> message_error \<in> set (validate scenario2) \<and>
   subseq (validate scenario2) [name_error, email_error, subject_error, message_error]"
  using errors_ordered_independent [of example_runtime scenario2 initial_world]
  by (simp add: validate_scenario2 messages_distinct)

text \<open>
  Claim C2. When validation fails, the Express route and the serverless function (on a
  \<open>POST\<close>) answer 400 with \<open>success: false\<close> and the error list, and the world is returned
  as it was: no append to the log file, no console output, no transport built, nothing sent.
  For name \<open>A\<close>, email \<open>bad\<close>, subject \<open>Hi!\<close> and message \<open>short\<close> the list has exactly the
  three errors of name, email and message.
\<close>

theorem rejected_without_effect:
  assumes "validate d \<noteq> []"
  shows "contact_post rt d w =
           (\<lparr>status = 400, headers = [],
             body = Some (JObject [(js ''success'', JBool False),
                                   (js ''errors'', JArray (map JString (validate d)))])\<rparr>, w) \<and>
         contact_function rt (js ''POST'') d w =
           (\<lparr>status = 400, headers = cors_headers,
             body = Some (JObject [(js ''success'', JBool False),
                                   (js ''errors'', JArray (map JString (validate d)))])\<rparr>, w) \<and>
         validate scenario2 = [name_error, email_error, message_error]"
  using assms
  by (simp add: contact_post_def contact_function_def Let_def rejected_def method_POST
      validate_scenario2)

theorem rejected_without_effect_witness:
  "validate scenario2 \<noteq> [] \<and>
   contact_post example_runtime scenario2 initial_world =
     (\<lparr>status = 400, headers = [],
       body = Some (JObject [(js ''success'', JBool False),
                (js ''errors'', JArray [JString name_error, JString email_error,
                                        JString message_error])])\<rparr>, initial_world) \<and>
   snd (contact_function example_runtime (js ''POST'') scenario2 initial_world) = initial_world \<and>
   length (validate scenario2) = 3"
  using rejected_without_effect [of scenario2 example_runtime initial_world]
  by (simp add: validate_scenario2)

section \<open>Failure of the delivery\<close>

lemma saveSubmissionToFile_transporter:
  "transporter (saveSubmissionToFile rt d w) = transporter w"
  by (simp add: saveSubmissionToFile_def emit_def Let_def split: option.splits)

lemma saveSubmissionToFile_trace:
  "trace (saveSubmissionToFile rt d w) =
     trace w @ [AppendFileSync (SUBMISSIONS_FILE rt) (log_entry rt d),
                case appendFileSync_error rt of
                  None \<Rightarrow> ConsoleLog [[0xD83D, 0xDCBE] @ js '' Submission saved to:'', SUBMISSIONS_FILE rt]
                | Some error \<Rightarrow> ConsoleError [[0x274C] @ js '' Error saving to file:'', error]]"
  by (simp add: saveSubmissionToFile_def emit_def Let_def split: option.splits)

lemma saveSubmissionToFile_submissions:
  "submissions (saveSubmissionToFile rt d w) =
     (case appendFileSync_error rt of
        None \<Rightarrow> submissions w @ log_entry rt d
      | Some error \<Rightarrow> submissions w)"
  by (simp add: saveSubmissionToFile_def emit_def Let_def split: option.splits)

lemma console_submission_no_io:
  "AppendFileSync p x \<notin> set (console_submission rt d)"
  "SendMail t m \<notin> set (console_submission rt d)"
  by (simp_all add: console_submission_def)










section \<open>The accepted submission\<close>

text \<open>Every run of the Express route on a valid submission.\<close>

lemma contact_post_valid_trace:
  assumes "validate d = []"
  shows "new_events w (snd (contact_post rt d w)) =
     console_submission rt d @
     [AppendFileSync (SUBMISSIONS_FILE rt) (log_entry rt d),
      case appendFileSync_error rt of
        None \<Rightarrow> ConsoleLog [[0xD83D, 0xDCBE] @ js '' Submission saved to:'', SUBMISSIONS_FILE rt]
      | Some error \<Rightarrow> ConsoleError [[0x274C] @ js '' Error saving to file:'', error]] @
     (case transporter w of
        None \<Rightarrow>
          [ConsoleLog [[0x26A0, 0xFE0F] @ js ''  Email not sent (not configured). Data logged above.'']]
      | Some t \<Rightarrow>
          SendMail t (server_mailOptions rt d) #
          (case sendMail rt t (server_mailOptions rt d) of
             Inl error \<Rightarrow> [ConsoleError [[0x274C] @ js '' Contact form error:'', error]]
           | Inr previewUrl \<Rightarrow>
               [ConsoleLog [[0x2705] @ js '' Email sent successfully!''],
                case previewUrl of
                  Some url \<Rightarrow> ConsoleLog [[0xD83D, 0xDD17] @ js '' Preview email at:'', url]
                | None \<Rightarrow>
                    ConsoleLog [[0xD83D, 0xDCE7] @ js '' Sent to:'',
                      interpolate (js_or (EMAIL_TO rt) (EMAIL_USER rt))]]))"
  using assms
  by (simp add: new_events_def contact_post_def Let_def saveSubmissionToFile_transporter
      saveSubmissionToFile_trace emit_def split: option.splits sum.splits)

lemma contact_post_valid_response:
  assumes "validate d = []"
  shows "fst (contact_post rt d w) =
     (case transporter w of
        None \<Rightarrow> accepted []
      | Some t \<Rightarrow>
          (case sendMail rt t (server_mailOptions rt d) of
             Inl error \<Rightarrow> failed []
           | Inr previewUrl \<Rightarrow> accepted []))"
  using assms
  by (simp add: contact_post_def Let_def saveSubmissionToFile_transporter emit_def
      split: option.splits sum.splits)

lemma contact_post_valid_submissions:
  assumes "validate d = []"
  shows "submissions (snd (contact_post rt d w)) =
     (case appendFileSync_error rt of
        None \<Rightarrow> submissions w @ log_entry rt d
      | Some error \<Rightarrow> submissions w)"
  using assms
  by (simp add: contact_post_def Let_def saveSubmissionToFile_transporter
      saveSubmissionToFile_submissions emit_def split: option.splits sum.splits)

lemma contact_function_trace:
  "SendMail t m \<in> set (new_events w (snd (contact_function rt method d w))) \<Longrightarrow>
     m = function_mailOptions rt d"
  by (auto simp: new_events_def contact_function_def function_send_def Let_def emit_def
      split: if_splits sum.splits prod.splits)

lemma rocket_subject:
  "mo_subject (server_mailOptions rt d) = [0xD83D, 0xDE80] @ js '' Portfolio: '' @ subject d"
  "mo_replyTo (server_mailOptions rt d) = email d"
  by (simp_all add: server_mailOptions_def)

lemma function_subject:
  "mo_subject (function_mailOptions rt d) = js ''Portfolio: '' @ subject d"
  "mo_replyTo (function_mailOptions rt d) = email d"
  by (simp_all add: function_mailOptions_def)

text \<open>
  Claim C6, as the code has it. For a valid submission, every message the Express route hands
  to the transport has the subject line \<open>U+1F680\<close> (a rocket, two code units), a space,
  \<open>Portfolio: \<close> and the submitted subject, and the submitted email as reply-to address; with
  a transport present such a message is handed over. Every message the serverless function
  sends has the subject line \<open>Portfolio: \<close> followed by the submitted subject, and the
  submitted email as reply-to address.
\<close>

theorem notification_headers:
  assumes "validate d = []"
  shows "(\<forall>t m. SendMail t m \<in> set (new_events w (snd (contact_post rt d w))) \<longrightarrow>
            mo_subject m = [0xD83D, 0xDE80] @ js '' Portfolio: '' @ subject d \<and>
            mo_replyTo m = email d) \<and>
         (\<forall>t. transporter w = Some t \<longrightarrow>
            SendMail t (server_mailOptions rt d) \<in> set (new_events w (snd (contact_post rt d w)))) \<and>
         (\<forall>t m. SendMail t m \<in> set (new_events w (snd (contact_function rt (js ''POST'') d w))) \<longrightarrow>
            mo_subject m = js ''Portfolio: '' @ subject d \<and> mo_replyTo m = email d)"
proof (intro conjI allI impI)
  fix t m
  assume "SendMail t m \<in> set (new_events w (snd (contact_post rt d w)))"
  then have "m = server_mailOptions rt d"
    unfolding contact_post_valid_trace [OF assms]
    by (auto simp: console_submission_no_io split: option.splits sum.splits)
  then show "mo_subject m = [0xD83D, 0xDE80] @ js '' Portfolio: '' @ subject d"
    and "mo_replyTo m = email d"
    by (simp_all only: rocket_subject)
next
  fix t
  assume "transporter w = Some t"
  then show "SendMail t (server_mailOptions rt d) \<in> set (new_events w (snd (contact_post rt d w)))"
    unfolding contact_post_valid_trace [OF assms] by simp
next
  fix t m
  assume "SendMail t m \<in> set (new_events w (snd (contact_function rt (js ''POST'') d w)))"
  then have "m = function_mailOptions rt d"
    by (rule contact_function_trace)
  then show "mo_subject m = js ''Portfolio: '' @ subject d" and "mo_replyTo m = email d"
    by (simp_all only: function_subject)
qed

theorem notification_headers_witness:
  "validate scenario1 = [] \<and> transporter configured_world = Some example_transport \<and>
   SendMail example_transport (server_mailOptions example_runtime scenario1)
     \<in> set (new_events configured_world (snd (contact_post example_runtime scenario1 configured_world))) \<and>
   mo_subject (server_mailOptions example_runtime scenario1) =
     [0xD83D, 0xDE80] @ js '' Portfolio: '' @ subject scenario1 \<and>
   mo_replyTo (server_mailOptions example_runtime scenario1) = email scenario1"
proof -
  note valid = validate_scenario1
  note headers = notification_headers [OF valid, of configured_world example_runtime]
  have t: "transporter configured_world = Some example_transport"
    by (simp add: configured_world_def)
  with headers have sent: "SendMail example_transport (server_mailOptions example_runtime scenario1)
      \<in> set (new_events configured_world (snd (contact_post example_runtime scenario1 configured_world)))"
    by blast
  with headers have "mo_subject (server_mailOptions example_runtime scenario1) =
      [0xD83D, 0xDE80] @ js '' Portfolio: '' @ subject scenario1 \<and>
      mo_replyTo (server_mailOptions example_runtime scenario1) = email scenario1"
    by blast
  with valid t sent show ?thesis
    by blast
qed

theorem notification_headers_counterexample:
  "validate scenario1 = [] \<and>
   SendMail example_transport (server_mailOptions example_runtime scenario1)
     \<in> set (trace (snd (contact_post example_runtime scenario1 configured_world))) \<and>
   mo_subject (server_mailOptions example_runtime scenario1) \<noteq> js ''Portfolio: '' @ subject scenario1"
  by (simp add: validate_scenario1 contact_post_def Let_def saveSubmissionToFile_transporter
      saveSubmissionToFile_trace emit_def configured_world_def initial_world_def
      example_runtime_def rocket_subject js_def)

lemma server_mailOptions_append_error:
  "server_mailOptions (rt\<lparr>appendFileSync_error := x\<rparr>) d = server_mailOptions rt d"
  by (simp add: server_mailOptions_def generateEmailTemplate_def generatePlainTextEmail_def)

text \<open>
  Claim C8. When appending to the log file throws on a valid submission, the Express route
  goes on: its answer is decided by the transport alone (200 when there is none or the send
  succeeds, 500 when the send throws) and equals the answer of the same request with a
  working log file; with a transport present \<open>sendMail\<close> is called, after the error has been
  written to \<open>console.error\<close>; the file is left as it was.
\<close>

theorem log_failure_swallowed:
  assumes "validate d = []" and "appendFileSync_error rt = Some err"
  shows "fst (contact_post rt d w) =
           (case transporter w of
              None \<Rightarrow> accepted []
            | Some t \<Rightarrow>
                (case sendMail rt t (server_mailOptions rt d) of
                   Inl error \<Rightarrow> failed []
                 | Inr previewUrl \<Rightarrow> accepted [])) \<and>
         (\<forall>t. transporter w = Some t \<longrightarrow>
            precedes (ConsoleError [[0x274C] @ js '' Error saving to file:'', err])
              (SendMail t (server_mailOptions rt d)) (new_events w (snd (contact_post rt d w)))) \<and>
         submissions (snd (contact_post rt d w)) = submissions w \<and>
         fst (contact_post (rt\<lparr>appendFileSync_error := None\<rparr>) d w) = fst (contact_post rt d w)"
proof (intro conjI allI impI)
  show "fst (contact_post rt d w) =
      (case transporter w of
         None \<Rightarrow> accepted []
       | Some t \<Rightarrow>
           (case sendMail rt t (server_mailOptions rt d) of
              Inl error \<Rightarrow> failed []
            | Inr previewUrl \<Rightarrow> accepted []))"
    by (rule contact_post_valid_response [OF assms(1)])
  show "submissions (snd (contact_post rt d w)) = submissions w"
    using assms(2) by (simp add: contact_post_valid_submissions [OF assms(1)])
next
  fix t
  assume "transporter w = Some t"
  then show "precedes (ConsoleError [[0x274C] @ js '' Error saving to file:'', err])
      (SendMail t (server_mailOptions rt d)) (new_events w (snd (contact_post rt d w)))"
    unfolding contact_post_valid_trace [OF assms(1)] using assms(2)
    by (simp add: precedes_def console_submission_def)
next
  show "fst (contact_post (rt\<lparr>appendFileSync_error := None\<rparr>) d w) = fst (contact_post rt d w)"
    by (simp add: contact_post_valid_response [OF assms(1)] server_mailOptions_append_error
        split: option.splits)
qed


theorem log_failure_swallowed_witness:
  "validate scenario1 = [] \<and> appendFileSync_error full_disk_runtime = Some (js ''ENOSPC'') \<and>
   transporter configured_world = Some example_transport \<and>
   fst (contact_post full_disk_runtime scenario1 configured_world) = accepted [] \<and>
   precedes (ConsoleError [[0x274C] @ js '' Error saving to file:'', js ''ENOSPC''])
     (SendMail example_transport (server_mailOptions full_disk_runtime scenario1))
     (new_events configured_world (snd (contact_post full_disk_runtime scenario1 configured_world))) \<and>
   submissions (snd (contact_post full_disk_runtime scenario1 configured_world)) = []"
proof -
  have e: "appendFileSync_error full_disk_runtime = Some (js ''ENOSPC'')"
    by (simp add: full_disk_runtime_def)
  have t: "transporter configured_world = Some example_transport"
    by (simp add: configured_world_def)
  have s: "sendMail full_disk_runtime example_transport
      (server_mailOptions full_disk_runtime scenario1) = Inr None"
    by (simp add: full_disk_runtime_def example_runtime_def)
  note swallowed = log_failure_swallowed [OF validate_scenario1 e, of configured_world]
  from swallowed t s have "fst (contact_post full_disk_runtime scenario1 configured_world) = accepted []"
    by simp
  moreover from swallowed t have "precedes (ConsoleError [[0x274C] @ js '' Error saving to file:'', js ''ENOSPC''])
      (SendMail example_transport (server_mailOptions full_disk_runtime scenario1))
      (new_events configured_world (snd (contact_post full_disk_runtime scenario1 configured_world)))"
    by blast
  moreover from swallowed have "submissions (snd (contact_post full_disk_runtime scenario1 configured_world)) = []"
    by (simp add: configured_world_def initial_world_def)
  ultimately show ?thesis
    using validate_scenario1 e t by blast
qed

lemma js_eq_iff: "js a = js b \<longleftrightarrow> a = b"
proof -
  have "inj (of_char :: char \<Rightarrow> jschar)"
    by (rule injI) (simp add: of_char_word_eq_iff)
  then show ?thesis
    unfolding js_def by (rule inj_map_eq_map)
qed

text \<open>
  Claim C9, as the code has it. The Express route \<open>GET /api/health\<close> answers 200 with
  \<open>status: "ok"\<close>, a message, the timestamp and \<open>emailConfigured\<close>, which is true exactly when
  the transporter is not null, and changes nothing. The serverless health function answers 200
  with \<open>status\<close>, \<open>message\<close> and \<open>timestamp\<close> only: its body has no \<open>emailConfigured\<close>.
\<close>

theorem health_reports:
  "status (fst (health rt w)) = 200 \<and> snd (health rt w) = w \<and>
   Option.bind (body (fst (health rt w))) (json_field (js ''status'')) = Some (JString (js ''ok'')) \<and>
   Option.bind (body (fst (health rt w))) (json_field (js ''message'')) =
     Some (JString (js ''Portfolio API is running'')) \<and>
   Option.bind (body (fst (health rt w))) (json_field (js ''timestamp'')) =
     Some (JString (date_iso rt)) \<and>
   Option.bind (body (fst (health rt w))) (json_field (js ''emailConfigured'')) =
     Some (JBool (transporter w \<noteq> None)) \<and>
   status (health_function rt) = 200 \<and>
   Option.bind (body (health_function rt)) (json_field (js ''status'')) = Some (JString (js ''ok'')) \<and>
   Option.bind (body (health_function rt)) (json_field (js ''message'')) =
     Some (JString (js ''Portfolio API is running'')) \<and>
   Option.bind (body (health_function rt)) (json_field (js ''timestamp'')) =
     Some (JString (date_iso rt)) \<and>
   Option.bind (body (health_function rt)) (json_field (js ''emailConfigured'')) = None"
  by (simp add: health_def health_function_def js_eq_iff)

theorem health_reports_witness:
  "Option.bind (body (fst (health example_runtime configured_world)))
     (json_field (js ''emailConfigured'')) = Some (JBool True) \<and>
   Option.bind (body (fst (health example_runtime initial_world)))
     (json_field (js ''emailConfigured'')) = Some (JBool False)"
  using health_reports [of example_runtime configured_world]
    health_reports [of example_runtime initial_world]
  by (simp add: configured_world_def initial_world_def)

theorem health_reports_counterexample:
  "status (health_function example_runtime) = 200 \<and>
   Option.bind (body (health_function example_runtime)) (json_field (js ''emailConfigured'')) = None"
  by (simp add: health_function_def js_eq_iff)








section \<open>Rendering\<close>

lemma sublist_left: "sublist p a \<Longrightarrow> sublist p (a @ b)"
  by (auto simp: sublist_def) (metis append.assoc)

lemma sublist_right: "sublist p b \<Longrightarrow> sublist p (a @ b)"
  by (auto simp: sublist_def) (metis append.assoc)

lemma plain_text_keeps:
  assumes "sublist p (name d) \<or> sublist p (email d) \<or> sublist p (subject d) \<or> sublist p (message d)"
  shows "sublist p (generatePlainTextEmail rt d)"
  unfolding generatePlainTextEmail_def
  using assms by (elim disjE) (intro sublist_right sublist_left; assumption)+

lemma function_text_keeps:
  assumes "sublist p (name d) \<or> sublist p (email d) \<or> sublist p (subject d) \<or> sublist p (message d)"
  shows "sublist p (mo_text (function_mailOptions rt d))"
  using assms
  by (elim disjE) (simp_all add: function_mailOptions_def sublist_left sublist_right)

lemma escapeChar_keeps:
  "escapeChar c = [c] \<longleftrightarrow> c \<notin> {0x26, 0x3C, 0x3E, 0x22, 0x27}"
  by (simp add: escapeChar_def js_def)

lemma escapeChar_entities:
  "escapeChar 0x26 = js ''&amp;''" "escapeChar 0x3C = js ''&lt;''" "escapeChar 0x3E = js ''&gt;''"
  "escapeChar 0x22 = js ''&quot;''" "escapeChar 0x27 = js ''&#039;''"
  by (simp_all add: escapeChar_def)

lemma escapeHtml_Nil: "escapeHtml [] = []"
  by (simp add: escapeHtml_def)

lemma escapeHtml_Cons: "escapeHtml (c # t) = escapeChar c @ escapeHtml t"
  by (simp add: escapeHtml_def)

text \<open>
  Claim C5. For a valid submission with \<open><script>\<close> in one of its fields, and a formatted date
  that does not itself contain \<open><script>\<close>, the HTML body of the message (of the Express route
  and of the serverless function) does not contain \<open><script>\<close>, and the plain-text body of
  each contains it. Each HTML body is ten fixed pieces of text around nine slots: the date and
  the fields, every field passed through \<open>escapeHtml\<close> (name, email twice, subject, message,
  email, subject, first word of the name). \<open>escapeHtml\<close> works code unit by code unit: it
  replaces exactly the code units of \<open>&\<close>, \<open><\<close>, \<open>>\<close>, the double quote and the single
  quote, each by its entity, and keeps every other code unit.
\<close>

theorem script_escaped:
  assumes "validate d = []"
    and "sublist script_tag (name d) \<or> sublist script_tag (email d) \<or>
         sublist script_tag (subject d) \<or> sublist script_tag (message d)"
    and "\<not> sublist script_tag (date_template rt)"
  shows "\<not> sublist script_tag (mo_html (server_mailOptions rt d)) \<and>
         sublist script_tag (mo_text (server_mailOptions rt d)) \<and>
         \<not> sublist script_tag (mo_html (function_mailOptions rt d)) \<and>
         sublist script_tag (mo_text (function_mailOptions rt d)) \<and>
         (escapeChar c = [c] \<longleftrightarrow> c \<notin> {0x26, 0x3C, 0x3E, 0x22, 0x27}) \<and>
         escapeChar 0x26 = js ''&amp;'' \<and> escapeChar 0x3C = js ''&lt;'' \<and>
         escapeChar 0x3E = js ''&gt;'' \<and> escapeChar 0x22 = js ''&quot;'' \<and>
         escapeChar 0x27 = js ''&#039;'' \<and>
         escapeHtml [] = [] \<and>
         (\<forall>x t. escapeHtml (x # t) = escapeChar x @ escapeHtml t) \<and>
         (\<exists>ps. length ps = 10 \<and>
            (\<forall>rt' d'. mo_html (server_mailOptions rt' d') =
               fill ps [date_template rt', escapeHtml (name d'), escapeHtml (email d'),
                 escapeHtml (email d'), escapeHtml (subject d'), escapeHtml (message d'),
                 escapeHtml (email d'), escapeHtml (subject d'),
                 escapeHtml (first_split (name d'))])) \<and>
         (\<exists>ps. length ps = 10 \<and>
            (\<forall>rt' d'. mo_html (function_mailOptions rt' d') =
               fill ps [date_template rt', escapeHtml (name d'), escapeHtml (email d'),
                 escapeHtml (email d'), escapeHtml (subject d'), escapeHtml (message d'),
                 escapeHtml (email d'), escapeHtml (subject d'),
                 escapeHtml (first_split (name d'))]))"
proof -
  have "scan 0 (generateEmailTemplate rt d) \<noteq> 8"
    by (simp add: generateEmailTemplate_scan [OF assms(3)])
  then have html: "\<not> sublist script_tag (mo_html (server_mailOptions rt d))"
    by (simp add: scan_iff_sublist server_mailOptions_def)
  have "scan 0 (function_template rt d) \<noteq> 8"
    by (simp add: function_template_scan [OF assms(3)])
  then have html': "\<not> sublist script_tag (mo_html (function_mailOptions rt d))"
    by (simp add: scan_iff_sublist function_mailOptions_def)
  have plain: "sublist script_tag (mo_text (server_mailOptions rt d))"
    using plain_text_keeps [OF assms(2)] by (simp add: server_mailOptions_def)
  have plain': "sublist script_tag (mo_text (function_mailOptions rt d))"
    by (rule function_text_keeps [OF assms(2)])
  have server_html: "\<And>rt d. mo_html (server_mailOptions rt d) = generateEmailTemplate rt d"
    by (simp add: server_mailOptions_def)
  have function_html: "\<And>rt d. mo_html (function_mailOptions rt d) = function_template rt d"
    by (simp add: function_mailOptions_def)
  have pieces: "\<exists>ps. length ps = 10 \<and>
      (\<forall>rt' d'. mo_html (server_mailOptions rt' d') =
         fill ps [date_template rt', escapeHtml (name d'), escapeHtml (email d'),
           escapeHtml (email d'), escapeHtml (subject d'), escapeHtml (message d'),
           escapeHtml (email d'), escapeHtml (subject d'),
           escapeHtml (first_split (name d'))])"
    unfolding server_html
    using pieces_length [OF generateEmailTemplate_pieces, of 9] by simp
  have pieces': "\<exists>ps. length ps = 10 \<and>
      (\<forall>rt' d'. mo_html (function_mailOptions rt' d') =
         fill ps [date_template rt', escapeHtml (name d'), escapeHtml (email d'),
           escapeHtml (email d'), escapeHtml (subject d'), escapeHtml (message d'),
           escapeHtml (email d'), escapeHtml (subject d'),
           escapeHtml (first_split (name d'))])"
    unfolding function_html
    using pieces_length [OF function_template_pieces, of 9] by simp
  have cons: "\<forall>x t. escapeHtml (x # t) = escapeChar x @ escapeHtml t"
    by (simp add: escapeHtml_Cons)
  from html html' plain plain' escapeChar_keeps [of c] escapeChar_entities escapeHtml_Nil cons
    pieces pieces'
  show ?thesis
    by (intro conjI) assumption+
qed

lemma validate_script_submission: "validate script_submission = []"
  by (simp add: validate_def script_submission_def Let_def trim_def isWhiteSpace_def js_def
      isValidEmail_def emailRegex_def)

lemma example_date_clean: "\<not> sublist script_tag (date_template example_runtime)"
proof -
  have "scan 0 (date_template example_runtime) = 0"
    by (simp add: example_runtime_def scan_js scan_ascii_Cons scan_ascii_Nil scan_step_ascii_at
        cong: scan_ascii_weak_cong)
  then show ?thesis
    by (simp add: scan_iff_sublist [symmetric])
qed

theorem script_escaped_witness:
  "validate script_submission = [] \<and> sublist script_tag (name script_submission) \<and>
   \<not> sublist script_tag (date_template example_runtime) \<and>
   \<not> sublist script_tag (mo_html (server_mailOptions example_runtime script_submission)) \<and>
   sublist script_tag (mo_text (server_mailOptions example_runtime script_submission)) \<and>
   \<not> sublist script_tag (mo_html (function_mailOptions example_runtime script_submission)) \<and>
   sublist script_tag (mo_text (function_mailOptions example_runtime script_submission)) \<and>
   escapeHtml (name script_submission) = js ''&lt;script&gt;''"
proof -
  have n: "sublist script_tag (name script_submission)"
    by (simp add: script_submission_def script_tag_def)
  then have fields: "sublist script_tag (name script_submission) \<or>
      sublist script_tag (email script_submission) \<or>
      sublist script_tag (subject script_submission) \<or>
      sublist script_tag (message script_submission)"
    by simp
  note escaped = script_escaped [where d = script_submission and rt = example_runtime,
      OF validate_script_submission fields example_date_clean]
  from escaped [where c = "0x73"] have nil: "escapeHtml [] = []"
    and cons: "\<And>x t. escapeHtml (x # t) = escapeChar x @ escapeHtml t"
    and lt: "escapeChar 0x3C = js ''&lt;''" and gt: "escapeChar 0x3E = js ''&gt;''"
    by blast+
  have keep: "escapeChar 0x73 = [0x73]" "escapeChar 0x63 = [0x63]" "escapeChar 0x72 = [0x72]"
    "escapeChar 0x69 = [0x69]" "escapeChar 0x70 = [0x70]" "escapeChar 0x74 = [0x74]"
    using escaped [where c = "0x73"] escaped [where c = "0x63"] escaped [where c = "0x72"]
      escaped [where c = "0x69"] escaped [where c = "0x70"] escaped [where c = "0x74"]
    by simp_all
  have "name script_submission = [0x3C, 0x73, 0x63, 0x72, 0x69, 0x70, 0x74, 0x3E]"
    by (simp add: script_submission_def js_def)
  then have "escapeHtml (name script_submission) = js ''&lt;script&gt;''"
    by (simp add: nil cons lt gt keep) (simp add: js_def)
  with escaped [where c = "0x73"] validate_script_submission n example_date_clean show ?thesis
    by blast
qed

lemma factor_here: "\<exists>pre post. \<forall>rt. g rt @ b = pre @ g rt @ post"
  by (rule exI [of _ "[]"], rule exI [of _ b]) simp

lemma factor_step:
  assumes "\<exists>pre post. \<forall>rt. f rt = pre @ g rt @ post"
  shows "\<exists>pre post. \<forall>rt. a @ f rt = pre @ g rt @ post"
proof -
  from assms obtain pre post where "\<forall>rt. f rt = pre @ g rt @ post"
    by blast
  then have "\<forall>rt. a @ f rt = (a @ pre) @ g rt @ post"
    by simp
  then show ?thesis
    by blast
qed

lemma generateEmailTemplate_factor:
  "\<exists>pre post. \<forall>rt. generateEmailTemplate rt d = pre @ date_template rt @ post"
  unfolding generateEmailTemplate_def Let_def
  by (intro factor_step, rule factor_here)

lemma function_template_factor:
  "\<exists>pre post. \<forall>rt. function_template rt d = pre @ date_template rt @ post"
  unfolding function_template_def Let_def
  by (intro factor_step, rule factor_here)

lemma generatePlainTextEmail_factor:
  "\<exists>pre post. \<forall>rt. generatePlainTextEmail rt d = pre @ date_plaintext rt @ post"
  unfolding generatePlainTextEmail_def
  by (intro factor_step, rule factor_here)

text \<open>
  Claim C7. The rendered bodies depend on the submission and, through one timestamp each, on
  the clock, and on nothing else of the environment: two renderings of the same submission
  with the same formatted timestamp are equal, and every HTML and plain-text body is a text
  fixed by the submission, then the timestamp, then another text fixed by the submission. The
  plain-text body of the serverless function has no timestamp.
\<close>

theorem render_deterministic:
  "(date_template rt = date_template rt' \<longrightarrow>
      generateEmailTemplate rt d = generateEmailTemplate rt' d \<and>
      function_template rt d = function_template rt' d) \<and>
   (date_plaintext rt = date_plaintext rt' \<longrightarrow>
      generatePlainTextEmail rt d = generatePlainTextEmail rt' d) \<and>
   mo_text (function_mailOptions rt d) = mo_text (function_mailOptions rt' d) \<and>
   (\<exists>pre post. \<forall>rt. generateEmailTemplate rt d = pre @ date_template rt @ post) \<and>
   (\<exists>pre post. \<forall>rt. function_template rt d = pre @ date_template rt @ post) \<and>
   (\<exists>pre post. \<forall>rt. generatePlainTextEmail rt d = pre @ date_plaintext rt @ post)"
proof (intro conjI impI)
  assume "date_template rt = date_template rt'"
  then show "generateEmailTemplate rt d = generateEmailTemplate rt' d"
    and "function_template rt d = function_template rt' d"
    using generateEmailTemplate_factor [of d] function_template_factor [of d] by metis+
next
  assume "date_plaintext rt = date_plaintext rt'"
  then show "generatePlainTextEmail rt d = generatePlainTextEmail rt' d"
    using generatePlainTextEmail_factor [of d] by metis
next
  show "mo_text (function_mailOptions rt d) = mo_text (function_mailOptions rt' d)"
    by (simp add: function_mailOptions_def)
qed (rule generateEmailTemplate_factor function_template_factor generatePlainTextEmail_factor)+

theorem render_deterministic_witness:
  "date_template example_runtime = date_template failing_send_runtime \<and>
   date_plaintext example_runtime = date_plaintext failing_send_runtime \<and>
   generateEmailTemplate example_runtime scenario1 = generateEmailTemplate failing_send_runtime scenario1 \<and>
   function_template example_runtime scenario1 = function_template failing_send_runtime scenario1 \<and>
   generatePlainTextEmail example_runtime scenario1 = generatePlainTextEmail failing_send_runtime scenario1"
  using render_deterministic [of example_runtime failing_send_runtime scenario1]
  by (simp add: failing_send_runtime_def)


end
